theory Spec2Isabelle
  imports Main "HOL-Library.AList"
begin

section \<open>Values, paths and the runtime\<close>

text \<open>
  The program is a Node.js tool server. Its install operation reads a JSON document,
  assigns one property in it and writes it back. The values it handles are the results
  of \<^verbatim>\<open>JSON.parse\<close>; an object is an association list of its own properties in the
  order JavaScript enumerates them. A JavaScript array is an object too and can carry
  named properties beside its elements (the second argument of \<open>JArr\<close>);
  \<^verbatim>\<open>JSON.parse\<close> never produces them and \<^verbatim>\<open>JSON.stringify\<close> never prints them.
  A number is held as the text JavaScript prints for it, \<^verbatim>\<open>0\<close> for both zeros:
  the program only ever tests a number for being zero.
\<close>

datatype json =
    JNull
  | JBool bool
  | JNum string
  | JStr string
  | JArr "json list" "(string \<times> json) list"
  | JObj "(string \<times> json) list"

text \<open>What \<^verbatim>\<open>JSON.stringify\<close> sees of a value: the named properties of arrays are skipped.\<close>

fun jsonView :: "json \<Rightarrow> json" where
  "jsonView (JArr xs ps) = JArr (map jsonView xs) []"
| "jsonView (JObj ps) = JObj (map (\<lambda>(k, v). (k, jsonView v)) ps)"
| "jsonView v = v"

text \<open>
  A path is held resolved: absolute and normalised, as the list of the segments of its
  POSIX text, the root being the empty list. \<^verbatim>\<open>path.resolve\<close> never leaves a
  trailing separator, \<^verbatim>\<open>path.join\<close> keeps one: the text \<^verbatim>\<open>/home/u/proj/\<close> is the
  list of \<^verbatim>\<open>home\<close>, \<^verbatim>\<open>u\<close>, \<^verbatim>\<open>proj\<close> and an empty last segment. \<open>render\<close> gives
  the text back. \<open>joinPath\<close> is \<^verbatim>\<open>path.join(p, "a", "b")\<close> with plain names, which
  drops the separator before it appends; \<^verbatim>\<open>path.basename\<close> and \<^verbatim>\<open>path.dirname\<close>
  ignore it too.
\<close>

type_synonym path = "string list"

definition render :: "path \<Rightarrow> string" where
  "render p = (if p = [] then ''/'' else concat (map (\<lambda>s. CHR ''/'' # s) p))"

definition segments :: "path \<Rightarrow> path" where
  "segments p = filter (\<lambda>s. s \<noteq> []) p"

definition joinPath :: "path \<Rightarrow> string list \<Rightarrow> path" where
  "joinPath p names = segments p @ names"

definition basename :: "path \<Rightarrow> string" where
  "basename p = (if segments p = [] then '''' else last (segments p))"

definition dirname :: "path \<Rightarrow> path" where
  "dirname p = butlast (segments p)"

definition endsWith :: "string \<Rightarrow> string \<Rightarrow> bool" where
  "endsWith s suffix =
     (length suffix \<le> length s \<and> drop (length s - length suffix) s = suffix)"

text \<open>\<^verbatim>\<open>s.replace(/-/g, "_")\<close>\<close>

definition replaceDashes :: "string \<Rightarrow> string" where
  "replaceDashes s = map (\<lambda>c. if c = CHR ''-'' then CHR ''_'' else c) s"

subsection \<open>Errors\<close>

text \<open>
  Everything the source can throw. \<open>SystemError\<close> is an error of Node's \<^verbatim>\<open>fs\<close>
  module with its \<^verbatim>\<open>code\<close>, its \<^verbatim>\<open>syscall\<close> and its \<^verbatim>\<open>path\<close>; \<open>SyntaxError\<close> is
  thrown by \<^verbatim>\<open>JSON.parse\<close> on the text it carries; \<open>TypeError\<close> is thrown by reading or
  setting the named property of a value (\<open>None\<close> is \<^verbatim>\<open>undefined\<close>); \<open>RangeError\<close> by
  setting the \<^verbatim>\<open>length\<close> of an array to a value that is no length; \<open>ExecError\<close> is the rejection of a
  child process, with its \<^verbatim>\<open>stderr\<close> and its message; \<open>Error\<close> is
  \<^verbatim>\<open>new Error(msg)\<close>.
\<close>

datatype errno = ENOENT | ENOTDIR | EISDIR | EEXIST

datatype propertyAccess = Reading | Setting

datatype exn =
    SystemError errno string path
  | SyntaxError string
  | TypeError propertyAccess "json option" string
  | RangeError
  | ExecError string string
  | Error string

fun errorCode :: "exn \<Rightarrow> errno option" where
  "errorCode (SystemError c syscall p) = Some c"
| "errorCode e = None"

subsection \<open>The file system\<close>

text \<open>
  The file system is a tree. The world is the tree and the mutating calls issued so
  far, oldest first; it holds the entries of the root directory. Permissions and
  symbolic links are not modelled.
\<close>

datatype node = File string | Dir "(string \<times> node) list"

datatype fs_call = Mkdir path | WriteFile path string

record world =
  entries :: "(string \<times> node) list"
  calls :: "fs_call list"

text \<open>The root directory, and the entries of a node (none for a file).\<close>

definition root :: "world \<Rightarrow> node" where
  "root w = Dir (entries w)"

fun children :: "node \<Rightarrow> (string \<times> node) list" where
  "children (Dir es) = es"
| "children (File c) = []"

text \<open>
  Looking a path up. An empty segment, the trailing separator, asks for a directory and
  stays in it.
\<close>

fun walk :: "node \<Rightarrow> path \<Rightarrow> errno + node" where
  "walk n [] = Inr n"
| "walk (File c) (s # p) = Inl ENOTDIR"
| "walk (Dir es) (s # p) =
     (if s = [] then walk (Dir es) p
      else case map_of es s of None \<Rightarrow> Inl ENOENT | Some n \<Rightarrow> walk n p)"

text \<open>\<^verbatim>\<open>mkdir -p\<close>: missing directories are created, existing ones kept.\<close>

fun mkdirs :: "node \<Rightarrow> path \<Rightarrow> errno + node" where
  "mkdirs (File c) [] = Inl EEXIST"
| "mkdirs (Dir es) [] = Inr (Dir es)"
| "mkdirs (File c) (s # p) = Inl ENOTDIR"
| "mkdirs (Dir es) (s # p) =
     (if s = [] then mkdirs (Dir es) p
      else case mkdirs (case map_of es s of None \<Rightarrow> Dir [] | Some n \<Rightarrow> n) p of
             Inl e \<Rightarrow> Inl e
           | Inr n' \<Rightarrow> Inr (Dir (AList.update s n' es)))"

text \<open>
  Create or truncate the file at a path and give it the content. A path with a trailing
  separator names a directory, so nothing is created for it.
\<close>

fun putFile :: "node \<Rightarrow> path \<Rightarrow> string \<Rightarrow> errno + node" where
  "putFile (File old) [] c = Inr (File c)"
| "putFile (Dir es) [] c = Inl EISDIR"
| "putFile (File old) (s # p) c = Inl ENOTDIR"
| "putFile (Dir es) (s # p) c =
     (if s = [] then putFile (Dir es) p c
      else case map_of es s of
             None \<Rightarrow> (if p = [] then Inr (Dir (AList.update s (File c) es))
                       else if segments p = [] then Inl EISDIR
                       else Inl ENOENT)
           | Some n \<Rightarrow>
               (case putFile n p c of
                  Inl e \<Rightarrow> Inl e
                | Inr n' \<Rightarrow> Inr (Dir (AList.update s n' es))))"

text \<open>
  \<^verbatim>\<open>readdir\<close> reports the names of a directory in the order of \<^verbatim>\<open>strcmp\<close>: byte by
  byte, a proper prefix first.
\<close>

fun nameLess :: "string \<Rightarrow> string \<Rightarrow> bool" where
  "nameLess [] [] = False"
| "nameLess [] (y # ys) = True"
| "nameLess (x # xs) [] = False"
| "nameLess (x # xs) (y # ys) =
     (if x = y then nameLess xs ys else (of_char x :: nat) < of_char y)"

fun insertName :: "string \<Rightarrow> string list \<Rightarrow> string list" where
  "insertName x [] = [x]"
| "insertName x (y # ys) = (if nameLess y x then y # insertName x ys else x # y # ys)"

definition sortNames :: "string list \<Rightarrow> string list" where
  "sortNames names = foldr insertName names []"

subsection \<open>Computations\<close>

text \<open>
  An \<^verbatim>\<open>async\<close> function is a function of the world that returns a value or throws,
  together with the world it leaves.
\<close>

type_synonym 'a io = "world \<Rightarrow> (exn + 'a) \<times> world"

definition io_return :: "'a \<Rightarrow> 'a io" where
  "io_return a = (\<lambda>w. (Inr a, w))"

definition io_throw :: "exn \<Rightarrow> 'a io" where
  "io_throw e = (\<lambda>w. (Inl e, w))"

definition io_lift :: "exn + 'a \<Rightarrow> 'a io" where
  "io_lift r = (\<lambda>w. (r, w))"

definition io_bind :: "'a io \<Rightarrow> ('a \<Rightarrow> 'b io) \<Rightarrow> 'b io" where
  "io_bind m f = (\<lambda>w. case m w of (Inl e, w') \<Rightarrow> (Inl e, w') | (Inr a, w') \<Rightarrow> f a w')"

definition io_catch :: "'a io \<Rightarrow> (exn \<Rightarrow> 'a io) \<Rightarrow> 'a io" where
  "io_catch m h = (\<lambda>w. case m w of (Inl e, w') \<Rightarrow> h e w' | (Inr a, w') \<Rightarrow> (Inr a, w'))"

text \<open>The calls of \<^verbatim>\<open>fs/promises\<close> the program makes.\<close>

definition fs_access :: "path \<Rightarrow> unit io" where
  "fs_access p = (\<lambda>w.
     case walk (root w) p of
       Inl e \<Rightarrow> (Inl (SystemError e ''access'' p), w)
     | Inr n \<Rightarrow> (Inr (), w))"

definition fs_readdir :: "path \<Rightarrow> string list io" where
  "fs_readdir p = (\<lambda>w.
     case walk (root w) p of
       Inl e \<Rightarrow> (Inl (SystemError e ''scandir'' p), w)
     | Inr (File c) \<Rightarrow> (Inl (SystemError ENOTDIR ''scandir'' p), w)
     | Inr (Dir es) \<Rightarrow> (Inr (sortNames (map fst es)), w))"

definition fs_readFile :: "path \<Rightarrow> string io" where
  "fs_readFile p = (\<lambda>w.
     case walk (root w) p of
       Inl e \<Rightarrow> (Inl (SystemError e ''open'' p), w)
     | Inr (File c) \<Rightarrow> (Inr c, w)
     | Inr (Dir es) \<Rightarrow> (Inl (SystemError EISDIR ''read'' p), w))"

text \<open>\<^verbatim>\<open>fs.mkdir(p, { recursive: true })\<close>\<close>

definition fs_mkdir :: "path \<Rightarrow> unit io" where
  "fs_mkdir p = (\<lambda>w.
     case mkdirs (root w) p of
       Inl e \<Rightarrow> (Inl (SystemError e ''mkdir'' p), w\<lparr>calls := calls w @ [Mkdir p]\<rparr>)
     | Inr n \<Rightarrow> (Inr (), w\<lparr>entries := children n, calls := calls w @ [Mkdir p]\<rparr>))"

definition fs_writeFile :: "path \<Rightarrow> string \<Rightarrow> unit io" where
  "fs_writeFile p c = (\<lambda>w.
     case putFile (root w) p c of
       Inl e \<Rightarrow> (Inl (SystemError e ''open'' p), w\<lparr>calls := calls w @ [WriteFile p c]\<rparr>)
     | Inr n \<Rightarrow> (Inr (), w\<lparr>entries := children n, calls := calls w @ [WriteFile p c]\<rparr>))"

text \<open>
  What the program takes from its runtime: the JSON codec (\<open>JSON_stringify\<close> is
  \<^verbatim>\<open>JSON.stringify(v, null, 2)\<close>), the resolution of a path text against the
  working directory (\<^verbatim>\<open>path.resolve\<close>), \<^verbatim>\<open>path.join\<close> of a resolved path
  with a text, the home directory, the platform, the \<^verbatim>\<open>APPDATA\<close> variable, the
  child processes (\<^verbatim>\<open>exec\<close> of a command line in a working directory), and the
  \<^verbatim>\<open>message\<close> that Node and the JavaScript engine give the errors they throw
  themselves.
\<close>

record runtime =
  JSON_parse :: "string \<Rightarrow> json option"
  JSON_stringify :: "json \<Rightarrow> string"
  path_resolve :: "string \<Rightarrow> path"
  path_join :: "path \<Rightarrow> string \<Rightarrow> path"
  homedir :: path
  platform :: string
  APPDATA :: "string option"
  execAsync :: "string \<Rightarrow> path \<Rightarrow> string io"
  nodeMessage :: "exn \<Rightarrow> string"

text \<open>\<^verbatim>\<open>error.message\<close>\<close>

fun message :: "runtime \<Rightarrow> exn \<Rightarrow> string" where
  "message rt (Error msg) = msg"
| "message rt (ExecError err msg) = msg"
| "message rt e = nodeMessage rt e"

section \<open>utils/fs\<close>

definition fileExists :: "path \<Rightarrow> bool io" where
  "fileExists filePath =
     io_catch (io_bind (fs_access filePath) (\<lambda>u. io_return True)) (\<lambda>error. io_return False)"

definition getDefaultClaudeConfigPath :: "runtime \<Rightarrow> path" where
  "getDefaultClaudeConfigPath rt =
     (if platform rt = ''win32''
      then joinPath (path_resolve rt (case APPDATA rt of None \<Rightarrow> '''' | Some a \<Rightarrow> a))
             [''Claude'', ''claude_desktop_config.json'']
      else joinPath (homedir rt)
             [''Library'', ''Application Support'', ''Claude'', ''claude_desktop_config.json''])"

definition readJsonFile :: "runtime \<Rightarrow> path \<Rightarrow> json io" where
  "readJsonFile rt filePath =
     io_catch
       (io_bind (fs_readFile filePath) (\<lambda>content.
          case JSON_parse rt content of
            None \<Rightarrow> io_throw (SyntaxError content)
          | Some v \<Rightarrow> io_return v))
       (\<lambda>error.
          if errorCode error = Some ENOENT
          then io_throw (Error (''File not found: '' @ render filePath))
          else io_throw (Error (''Failed to read JSON file '' @ render filePath @ '': ''
                                  @ message rt error)))"

definition writeJsonFile :: "runtime \<Rightarrow> path \<Rightarrow> json \<Rightarrow> unit io" where
  "writeJsonFile rt filePath doc =
     io_catch
       (io_bind (fs_mkdir (dirname filePath)) (\<lambda>u.
          fs_writeFile filePath (JSON_stringify rt (jsonView doc))))
       (\<lambda>error.
          io_throw (Error (''Failed to write JSON file '' @ render filePath @ '': ''
                             @ message rt error)))"

definition ensureDir :: "runtime \<Rightarrow> path \<Rightarrow> unit io" where
  "ensureDir rt dirPath =
     io_catch (fs_mkdir dirPath)
       (\<lambda>error.
          io_throw (Error (''Failed to create directory '' @ render dirPath @ '': ''
                             @ message rt error)))"

definition resolvePath :: "runtime \<Rightarrow> string \<Rightarrow> path" where
  "resolvePath rt inputPath =
     (if take 1 inputPath = ''~''
      then path_join rt (homedir rt) (drop 1 inputPath)
      else path_resolve rt inputPath)"

section \<open>Property access on parsed values\<close>

text \<open>
  The program runs as an ES module, hence in strict mode. Reading a property of
  \<^verbatim>\<open>null\<close> throws; on any other primitive it gives \<^verbatim>\<open>undefined\<close> (\<open>None\<close>).
  \<open>getMcpServers\<close> is the expression \<^verbatim>\<open>config.mcpServers\<close>.
\<close>

fun getMcpServers :: "json \<Rightarrow> exn + json option" where
  "getMcpServers JNull = Inl (TypeError Reading (Some JNull) ''mcpServers'')"
| "getMcpServers (JObj ps) = Inr (map_of ps ''mcpServers'')"
| "getMcpServers (JArr xs ps) = Inr (map_of ps ''mcpServers'')"
| "getMcpServers v = Inr None"

fun truthy :: "json \<Rightarrow> bool" where
  "truthy JNull = False"
| "truthy (JBool b) = b"
| "truthy (JNum n) = (n \<noteq> ''0'')"
| "truthy (JStr s) = (s \<noteq> [])"
| "truthy v = True"

text \<open>
  An array index is the canonical decimal text of a number below \<open>2\<^sup>3\<^sup>2 - 1\<close>. Writing
  past the end of an array leaves holes, which \<^verbatim>\<open>JSON.stringify\<close> prints as
  \<^verbatim>\<open>null\<close>.
\<close>

definition digitsValue :: "string \<Rightarrow> nat" where
  "digitsValue k = foldl (\<lambda>n c. 10 * n + (of_char c - 48)) 0 k"

definition isArrayIndex :: "string \<Rightarrow> bool" where
  "isArrayIndex k =
     (if k = [] then False
      else if list_ex (\<lambda>c. c \<notin> set ''0123456789'') k then False
      else if hd k = CHR ''0'' \<and> k \<noteq> ''0'' then False
      else digitsValue k < 4294967295)"

definition arraySet :: "json list \<Rightarrow> nat \<Rightarrow> json \<Rightarrow> json list" where
  "arraySet xs i v =
     (if i < length xs then xs[i := v] else xs @ replicate (i - length xs) JNull @ [v])"

text \<open>
  Setting an own property. A property that exists keeps its place. A new one whose name
  is an array index goes among the index names, which JavaScript enumerates first and in
  numeric order; any other new one goes last.
\<close>

fun insertIndexKey :: "string \<Rightarrow> json \<Rightarrow> (string \<times> json) list \<Rightarrow> (string \<times> json) list" where
  "insertIndexKey k v [] = [(k, v)]"
| "insertIndexKey k v ((k', v') # ps) =
     (if isArrayIndex k' \<and> digitsValue k' < digitsValue k
      then (k', v') # insertIndexKey k v ps
      else (k, v) # (k', v') # ps)"

definition setOwn :: "string \<Rightarrow> json \<Rightarrow> (string \<times> json) list \<Rightarrow> (string \<times> json) list" where
  "setOwn k v ps =
     (if map_of ps k \<noteq> None then AList.update k v ps
      else if isArrayIndex k then insertIndexKey k v ps
      else ps @ [(k, v)])"

text \<open>
  The assignment \<^verbatim>\<open>target[k] = v\<close> for the values the program assigns: objects
  and the text \<^verbatim>\<open>module\<close>, none of them a length an array can take. The result is
  the target after the assignment. On an object it
  sets the own property \<open>k\<close>, except for \<^verbatim>\<open>__proto__\<close>, which (unless it is already
  an own property) is the accessor of \<^verbatim>\<open>Object.prototype\<close>: the prototype changes and
  no own property appears. On an array an index sets an element, \<^verbatim>\<open>length\<close> throws
  a \<^verbatim>\<open>RangeError\<close> and any other name sets a named property. On \<^verbatim>\<open>null\<close> and, in
  strict mode, on a primitive it throws a \<^verbatim>\<open>TypeError\<close>.
\<close>

fun assignProperty :: "json \<Rightarrow> string \<Rightarrow> json \<Rightarrow> exn + json" where
  "assignProperty (JObj ps) k v =
     (if k = ''__proto__'' \<and> map_of ps k = None then Inr (JObj ps)
      else Inr (JObj (setOwn k v ps)))"
| "assignProperty (JArr xs ps) k v =
     (if k = ''length'' then Inl RangeError
      else if isArrayIndex k then Inr (JArr (arraySet xs (digitsValue k) v) ps)
      else if k = ''__proto__'' \<and> map_of ps k = None then Inr (JArr xs ps)
      else Inr (JArr xs (setOwn k v ps)))"
| "assignProperty JNull k v = Inl (TypeError Setting (Some JNull) k)"
| "assignProperty prim k v =
     (if k = ''__proto__'' then Inr prim else Inl (TypeError Setting (Some prim) k))"

text \<open>\<^verbatim>\<open>if (!config.mcpServers) { config.mcpServers = {}; }\<close>\<close>

definition ensureMcpServers :: "json \<Rightarrow> exn + json" where
  "ensureMcpServers config =
     (case getMcpServers config of
        Inl e \<Rightarrow> Inl e
      | Inr m \<Rightarrow>
          if (case m of None \<Rightarrow> False | Some v \<Rightarrow> truthy v) then Inr config
          else assignProperty config ''mcpServers'' (JObj []))"

text \<open>
  \<^verbatim>\<open>config.mcpServers[serverName] = spec\<close>: the value of \<^verbatim>\<open>config.mcpServers\<close> is
  changed in place, so \<open>config\<close> afterwards holds the changed value under the same key.
\<close>

definition setServer :: "json \<Rightarrow> string \<Rightarrow> json \<Rightarrow> exn + json" where
  "setServer config serverName spec =
     (case getMcpServers config of
        Inl e \<Rightarrow> Inl e
      | Inr None \<Rightarrow> Inl (TypeError Setting None serverName)
      | Inr (Some m) \<Rightarrow>
          (case assignProperty m serverName spec of
             Inl e \<Rightarrow> Inl e
           | Inr m' \<Rightarrow> assignProperty config ''mcpServers'' m'))"

text \<open>The object literal \<^verbatim>\<open>{ command: c, args: [...] }\<close>.\<close>

definition launchSpec :: "string \<Rightarrow> string list \<Rightarrow> json" where
  "launchSpec command args = JObj [(''command'', JStr command), (''args'', JArr (map JStr args) [])]"

definition defaultConfig :: json where
  "defaultConfig = JObj [(''mcpServers'', JObj [])]"

section \<open>tools/install-server\<close>

datatype serverType = Nodejs | Python | Java

text \<open>The result a tool handler returns: the \<^verbatim>\<open>isError\<close> flag and the text of its content.\<close>

record toolResult =
  isError :: bool
  content :: string

definition determineServerType :: "runtime \<Rightarrow> path \<Rightarrow> serverType io" where
  "determineServerType rt directory =
     io_catch
       (io_bind (fs_readdir directory) (\<lambda>files.
          if ''package.json'' \<in> set files then io_return Nodejs
          else if ''server.py'' \<in> set files \<or> list_ex (\<lambda>file. endsWith file ''.py'') files
                  \<or> ''requirements.txt'' \<in> set files \<or> ''pyproject.toml'' \<in> set files
          then io_return Python
          else if ''pom.xml'' \<in> set files \<or> ''build.gradle'' \<in> set files then io_return Java
          else io_bind (fileExists (joinPath directory [''target''])) (\<lambda>hasTarget.
            if hasTarget then io_return Java
            else io_bind (fileExists (joinPath directory [''build'', ''libs''])) (\<lambda>hasLibs.
              if hasLibs then io_return Java
              else io_throw (Error (''Unable to determine server type in directory: ''
                                      @ render directory))))))
       (\<lambda>error. io_throw (Error (''Failed to determine server type: '' @ message rt error)))"

text \<open>
  The first statement of \<open>updateClaudeConfig\<close>: the variable \<open>config\<close> starts as the
  default, and the catch block only logs a warning, so the statement ends with whatever
  \<open>config\<close> held when the error was thrown: the default when the read or the
  \<^verbatim>\<open>mkdir\<close> threw, the parsed value when the check of \<^verbatim>\<open>config.mcpServers\<close> threw
  after the assignment (the inner handler below stands for the same catch block at that
  point).
\<close>

definition readConfig :: "runtime \<Rightarrow> path \<Rightarrow> json io" where
  "readConfig rt configPath =
     io_catch
       (io_bind (fileExists configPath) (\<lambda>present.
          if present
          then io_bind (readJsonFile rt configPath) (\<lambda>parsed.
                 io_catch (io_lift (ensureMcpServers parsed)) (\<lambda>error. io_return parsed))
          else io_bind (fs_mkdir (dirname configPath)) (\<lambda>u. io_return defaultConfig)))
       (\<lambda>error. io_return defaultConfig)"

text \<open>The three branches of \<open>updateClaudeConfig\<close>; each returns \<open>config\<close> after its assignment.\<close>

definition configureNodejs :: "json \<Rightarrow> string \<Rightarrow> path \<Rightarrow> json io" where
  "configureNodejs config serverName serverDir =
     io_lift (setServer config serverName
       (launchSpec ''node'' [render (joinPath serverDir [''build'', ''index.js''])]))"

definition configurePython :: "json \<Rightarrow> string \<Rightarrow> path \<Rightarrow> json io" where
  "configurePython config serverName serverDir =
     io_bind (fileExists (joinPath serverDir [''server.py''])) (\<lambda>hasPyFile.
       if hasPyFile
       then io_catch
              (io_lift (setServer config serverName
                 (launchSpec ''uv'' [''--directory'', render serverDir, ''run'', ''server.py''])))
              (\<lambda>error.
                 io_lift (setServer config serverName
                   (launchSpec ''python'' [render (joinPath serverDir [''server.py''])])))
       else io_lift (setServer config serverName
              (launchSpec ''python'' [''-m'', replaceDashes serverName])))"

definition configureJava :: "json \<Rightarrow> string \<Rightarrow> path \<Rightarrow> json io" where
  "configureJava config serverName serverDir =
     io_bind (fileExists (joinPath serverDir [''target''])) (\<lambda>hasMavenTarget.
     io_bind (fileExists (joinPath serverDir [''build'', ''libs''])) (\<lambda>hasGradleBuild.
       if hasMavenTarget
       then io_bind (fs_readdir (joinPath serverDir [''target''])) (\<lambda>files.
              case (case find (\<lambda>file. endsWith file ''-jar-with-dependencies.jar'') files of
                      Some f \<Rightarrow> Some f
                    | None \<Rightarrow> find (\<lambda>file. endsWith file ''.jar'') files) of
                None \<Rightarrow> io_throw (Error (''No jar file found in ''
                                           @ render (joinPath serverDir [''target''])))
              | Some jarFile \<Rightarrow>
                  io_lift (setServer config serverName
                    (launchSpec ''java'' [''-jar'', render (joinPath serverDir [''target'', jarFile])])))
       else if hasGradleBuild
       then io_bind (fs_readdir (joinPath serverDir [''build'', ''libs''])) (\<lambda>files.
              case find (\<lambda>file. endsWith file ''.jar'') files of
                None \<Rightarrow> io_throw (Error (''No jar file found in ''
                                           @ render (joinPath serverDir [''build'', ''libs''])))
              | Some jarFile \<Rightarrow>
                  io_lift (setServer config serverName
                    (launchSpec ''java''
                       [''-jar'', render (joinPath serverDir [''build'', ''libs'', jarFile])])))
       else io_throw (Error (''No Maven or Gradle build artifacts found in ''
                               @ render serverDir))))"

definition updateClaudeConfig ::
  "runtime \<Rightarrow> path \<Rightarrow> serverType \<Rightarrow> string \<Rightarrow> path \<Rightarrow> unit io" where
  "updateClaudeConfig rt configPath serverType serverName serverDir =
     io_catch
       (io_bind (readConfig rt configPath) (\<lambda>config.
        io_bind (case serverType of
                   Nodejs \<Rightarrow> configureNodejs config serverName serverDir
                 | Python \<Rightarrow> configurePython config serverName serverDir
                 | Java \<Rightarrow> configureJava config serverName serverDir) (\<lambda>config'.
        writeJsonFile rt configPath config')))
       (\<lambda>error.
          io_throw (Error (''Failed to update Claude Desktop config: '' @ message rt error)))"

text \<open>
  The handler of the \<^verbatim>\<open>install-server\<close> tool. The optional \<open>configPath\<close> is \<open>None\<close>
  when the caller left it out; an empty text is falsy and also selects the default.
\<close>

definition installServerTool :: "runtime \<Rightarrow> string \<Rightarrow> string option \<Rightarrow> toolResult io" where
  "installServerTool rt directory configPath =
     io_catch
       (let fullPath = resolvePath rt directory in
        io_bind (fileExists fullPath) (\<lambda>present.
          if \<not> present
          then io_return \<lparr>isError = True,
                 content = ''Error: Directory '' @ render fullPath @ '' does not exist.''\<rparr>
          else io_bind (determineServerType rt fullPath) (\<lambda>serverType.
            let serverName = basename fullPath;
                claudeConfigPath =
                  (case configPath of
                     None \<Rightarrow> getDefaultClaudeConfigPath rt
                   | Some c \<Rightarrow> if c = [] then getDefaultClaudeConfigPath rt
                               else resolvePath rt c)
            in io_bind (updateClaudeConfig rt claudeConfigPath serverType serverName fullPath)
                 (\<lambda>u. io_return \<lparr>isError = False,
                    content = ''Successfully installed MCP server '' @ [CHR 0x22] @ serverName
                      @ [CHR 0x22] @ '' at '' @ render fullPath
                      @ '' in Claude Desktop config at '' @ render claudeConfigPath\<rparr>))))
       (\<lambda>error. io_return \<lparr>isError = True,
                    content = ''Failed to install server: '' @ message rt error\<rparr>)"

section \<open>utils/exec\<close>

text \<open>\<^verbatim>\<open>stdout.trim()\<close>, on the ASCII white space.\<close>

definition isSpace :: "char \<Rightarrow> bool" where
  "isSpace c = (c \<in> set [CHR '' '', CHR 0x09, CHR 0x0A, CHR 0x0B, CHR 0x0C, CHR 0x0D])"

definition trim :: "string \<Rightarrow> string" where
  "trim s = rev (dropWhile isSpace (rev (dropWhile isSpace s)))"

text \<open>\<^verbatim>\<open>typedError.stderr || typedError.message\<close>\<close>

fun stderrOrMessage :: "runtime \<Rightarrow> exn \<Rightarrow> string" where
  "stderrOrMessage rt (ExecError err msg) = (if err = [] then msg else err)"
| "stderrOrMessage rt e = message rt e"

definition executeCommand :: "runtime \<Rightarrow> string \<Rightarrow> path \<Rightarrow> string io" where
  "executeCommand rt command cwd =
     io_catch
       (io_bind (execAsync rt command cwd) (\<lambda>stdout. io_return (trim stdout)))
       (\<lambda>error. io_throw (Error (''Command execution failed: '' @ stderrOrMessage rt error)))"

text \<open>A statement whose value is dropped.\<close>

definition io_discard :: "'a io \<Rightarrow> unit io" where
  "io_discard m = io_bind m (\<lambda>a. io_return ())"

section \<open>tools/build-server\<close>

definition buildTypeScriptProject :: "runtime \<Rightarrow> path \<Rightarrow> unit io" where
  "buildTypeScriptProject rt directory =
     io_catch
       (io_bind (executeCommand rt ''npm install'' directory) (\<lambda>out1.
        io_discard (executeCommand rt ''npm run build'' directory)))
       (\<lambda>error. io_throw (Error (''Failed to build TypeScript project: '' @ message rt error)))"

definition pipCommand :: "runtime \<Rightarrow> string \<Rightarrow> string" where
  "pipCommand rt args =
     (if platform rt = ''win32''
      then ''.venv'' @ [CHR 0x5C] @ ''Scripts'' @ [CHR 0x5C] @ ''pip install '' @ args
      else ''.venv/bin/pip install '' @ args)"

definition buildPythonProject :: "runtime \<Rightarrow> path \<Rightarrow> unit io" where
  "buildPythonProject rt directory =
     io_catch
       (io_bind (fileExists (joinPath directory [''.venv''])) (\<lambda>venvExists.
        io_bind (if \<not> venvExists
                 then io_discard
                        (io_catch (executeCommand rt ''uv venv'' directory)
                           (\<lambda>error. executeCommand rt ''python -m venv .venv'' directory))
                 else io_return ()) (\<lambda>u.
        io_bind (fileExists (joinPath directory [''requirements.txt''])) (\<lambda>hasRequirements.
        io_bind (fileExists (joinPath directory [''pyproject.toml''])) (\<lambda>hasPyprojectToml.
          if hasRequirements
          then io_discard
                 (io_catch (executeCommand rt ''uv pip install -r requirements.txt'' directory)
                    (\<lambda>error. executeCommand rt (pipCommand rt ''-r requirements.txt'') directory))
          else if hasPyprojectToml
          then io_discard
                 (io_catch (executeCommand rt ''uv pip install -e .'' directory)
                    (\<lambda>error. executeCommand rt (pipCommand rt ''-e .'') directory))
          else io_discard
                 (io_catch (executeCommand rt ''uv pip install mcp[cli]'' directory)
                    (\<lambda>error. executeCommand rt (pipCommand rt ''mcp[cli]'') directory)))))))
       (\<lambda>error. io_throw (Error (''Failed to build Python project: '' @ message rt error)))"

definition buildJavaProject :: "runtime \<Rightarrow> path \<Rightarrow> unit io" where
  "buildJavaProject rt directory =
     io_catch
       (io_bind (fileExists (joinPath directory [''pom.xml''])) (\<lambda>hasPomXml.
        io_bind (fileExists (joinPath directory [''build.gradle''])) (\<lambda>hasBuildGradle.
          if hasPomXml then io_discard (executeCommand rt ''mvn clean package'' directory)
          else if hasBuildGradle
          then (if platform rt = ''win32''
                then io_discard (executeCommand rt ''gradlew.bat build'' directory)
                else io_discard (executeCommand rt ''./gradlew build'' directory))
          else io_throw (Error ''No Maven or Gradle build files found''))))
       (\<lambda>error. io_throw (Error (''Failed to build Java project: '' @ message rt error)))"

definition buildServerTool :: "runtime \<Rightarrow> string \<Rightarrow> toolResult io" where
  "buildServerTool rt directory =
     io_catch
       (let fullPath = resolvePath rt directory in
        io_bind (fileExists fullPath) (\<lambda>present.
          if \<not> present
          then io_return \<lparr>isError = True,
                 content = ''Error: Directory '' @ render fullPath @ '' does not exist.''\<rparr>
          else io_bind (fs_readdir fullPath) (\<lambda>files.
            if ''package.json'' \<in> set files
            then io_bind (buildTypeScriptProject rt fullPath) (\<lambda>u.
                   io_return \<lparr>isError = False,
                     content = ''Successfully built TypeScript MCP server at ''
                       @ render fullPath\<rparr>)
            else if ''requirements.txt'' \<in> set files \<or> ''pyproject.toml'' \<in> set files
                    \<or> ''server.py'' \<in> set files
            then io_bind (buildPythonProject rt fullPath) (\<lambda>u.
                   io_return \<lparr>isError = False,
                     content = ''Successfully built Python MCP server at '' @ render fullPath\<rparr>)
            else if ''pom.xml'' \<in> set files \<or> ''build.gradle'' \<in> set files
            then io_bind (buildJavaProject rt fullPath) (\<lambda>u.
                   io_return \<lparr>isError = False,
                     content = ''Successfully built Java MCP server at '' @ render fullPath\<rparr>)
            else io_return \<lparr>isError = True,
                   content = ''Unable to determine project type in '' @ render fullPath
                     @ ''. Make sure it's a valid MCP server project.''\<rparr>)))
       (\<lambda>error. io_return \<lparr>isError = True,
                    content = ''Failed to build server: '' @ message rt error\<rparr>)"

section \<open>tools/create-server\<close>

text \<open>
  The scaffolders run commands and write files. The text of the generated files is a
  parameter: a function of the project name and directory, as the template literals of
  the source are.
\<close>

record templates =
  tsconfigJson :: string
  indexTs :: "string \<Rightarrow> string"
  readmeTs :: "string \<Rightarrow> path \<Rightarrow> string"
  serverPy :: "string \<Rightarrow> string"
  readmePy :: "string \<Rightarrow> path \<Rightarrow> string"
  serverJava :: "string \<Rightarrow> string \<Rightarrow> string \<Rightarrow> string"
  pomXml :: "string \<Rightarrow> string \<Rightarrow> string \<Rightarrow> string"
  readmeJava :: "string \<Rightarrow> path \<Rightarrow> string"

datatype language = LangTypescript | LangPython | LangJava

definition createTypeScriptProject :: "runtime \<Rightarrow> templates \<Rightarrow> string \<Rightarrow> path \<Rightarrow> unit io" where
  "createTypeScriptProject rt tp name directory =
     io_catch
       (io_bind (executeCommand rt ''npm init -y'' directory) (\<lambda>out1.
        io_bind (executeCommand rt ''npm install @modelcontextprotocol/sdk zod'' directory) (\<lambda>out2.
        io_bind (executeCommand rt ''npm install -D typescript @types/node'' directory) (\<lambda>out3.
        io_bind (fs_writeFile (joinPath directory [''tsconfig.json'']) (tsconfigJson tp)) (\<lambda>u1.
        io_bind (fs_readFile (joinPath directory [''package.json''])) (\<lambda>packageJsonContent.
        io_bind (case JSON_parse rt packageJsonContent of
                   None \<Rightarrow> io_throw (SyntaxError packageJsonContent)
                 | Some v \<Rightarrow> io_return v) (\<lambda>packageJson.
        io_bind (io_lift (assignProperty packageJson ''type'' (JStr ''module''))) (\<lambda>packageJson1.
        io_bind (io_lift (assignProperty packageJson1 ''scripts''
                   (JObj [(''build'', JStr ''tsc''), (''start'', JStr ''node build/index.js'')])))
          (\<lambda>packageJson2.
        io_bind (fs_writeFile (joinPath directory [''package.json''])
                   (JSON_stringify rt (jsonView packageJson2))) (\<lambda>u2.
        io_bind (ensureDir rt (joinPath directory [''src''])) (\<lambda>u3.
        io_bind (fs_writeFile (joinPath directory [''src'', ''index.ts'']) (indexTs tp name)) (\<lambda>u4.
        fs_writeFile (joinPath directory [''README.md'']) (readmeTs tp name directory)))))))))))))
       (\<lambda>error. io_throw (Error (''Failed to create TypeScript project: '' @ message rt error)))"

definition createPythonProject :: "runtime \<Rightarrow> templates \<Rightarrow> string \<Rightarrow> path \<Rightarrow> unit io" where
  "createPythonProject rt tp name directory =
     io_catch
       (io_bind (io_catch (executeCommand rt ''uv venv'' directory)
                   (\<lambda>error. executeCommand rt ''python -m venv .venv'' directory)) (\<lambda>out1.
        io_bind (fs_writeFile (joinPath directory [''requirements.txt'']) (''mcp[cli]'' @ [CHR 0x0A]))
          (\<lambda>u1.
        io_bind (io_catch (executeCommand rt ''uv pip install -r requirements.txt'' directory)
                   (\<lambda>error. executeCommand rt (pipCommand rt ''-r requirements.txt'') directory))
          (\<lambda>out2.
        io_bind (fs_writeFile (joinPath directory [''server.py'']) (serverPy tp (replaceDashes name)))
          (\<lambda>u2.
        fs_writeFile (joinPath directory [''README.md'']) (readmePy tp name directory))))))
       (\<lambda>error. io_throw (Error (''Failed to create Python project: '' @ message rt error)))"

text \<open>The string functions of \<open>createJavaProject\<close>, on ASCII.\<close>

definition toLowerCase :: "string \<Rightarrow> string" where
  "toLowerCase s =
     map (\<lambda>c. if 65 \<le> (of_char c :: nat) \<and> (of_char c :: nat) \<le> 90
                then char_of (of_char c + (32 :: nat)) else c) s"

definition toUpperCase :: "string \<Rightarrow> string" where
  "toUpperCase s =
     map (\<lambda>c. if 97 \<le> (of_char c :: nat) \<and> (of_char c :: nat) \<le> 122
                then char_of (of_char c - (32 :: nat)) else c) s"

fun splitOn :: "char \<Rightarrow> string \<Rightarrow> string list" where
  "splitOn d [] = [[]]"
| "splitOn d (c # cs) =
     (if c = d then [] # splitOn d cs
      else (case splitOn d cs of [] \<Rightarrow> [[c]] | part # parts \<Rightarrow> (c # part) # parts))"

definition javaPackageName :: "string \<Rightarrow> string" where
  "javaPackageName name = filter (\<lambda>c. c \<noteq> CHR ''-'') (toLowerCase name)"

definition javaClassName :: "string \<Rightarrow> string" where
  "javaClassName name =
     concat (map (\<lambda>part. toUpperCase (take 1 part) @ drop 1 part) (splitOn (CHR ''-'') name))"

definition createJavaProject :: "runtime \<Rightarrow> templates \<Rightarrow> string \<Rightarrow> path \<Rightarrow> unit io" where
  "createJavaProject rt tp name directory =
     io_catch
       (let mainJavaDir = foldl (path_join rt) (joinPath directory [''src'', ''main'', ''java''])
                            (splitOn (CHR ''.'') (javaPackageName name)) in
        io_bind (ensureDir rt mainJavaDir) (\<lambda>u1.
        io_bind (fs_writeFile (path_join rt mainJavaDir (javaClassName name @ ''Server.java''))
                   (serverJava tp (javaPackageName name) (javaClassName name) name)) (\<lambda>u2.
        io_bind (fs_writeFile (joinPath directory [''pom.xml''])
                   (pomXml tp (javaPackageName name) (javaClassName name) name)) (\<lambda>u3.
        fs_writeFile (joinPath directory [''README.md'']) (readmeJava tp name directory)))))
       (\<lambda>error. io_throw (Error (''Failed to create Java project: '' @ message rt error)))"

definition languageName :: "language \<Rightarrow> string" where
  "languageName l =
     (case l of LangTypescript \<Rightarrow> ''typescript'' | LangPython \<Rightarrow> ''python''
      | LangJava \<Rightarrow> ''java'')"

definition createServerTool ::
  "runtime \<Rightarrow> templates \<Rightarrow> string \<Rightarrow> language \<Rightarrow> string \<Rightarrow> toolResult io" where
  "createServerTool rt tp name lang directory =
     io_catch
       (let resolvedDir = resolvePath rt directory;
            fullPath = path_join rt resolvedDir name in
        io_bind (fileExists fullPath) (\<lambda>present.
          if present
          then io_return \<lparr>isError = True,
                 content = ''Error: Directory '' @ render fullPath
                   @ '' already exists. Please choose a different name or directory.''\<rparr>
          else io_bind (ensureDir rt fullPath) (\<lambda>u.
               io_bind (case lang of
                          LangTypescript \<Rightarrow> createTypeScriptProject rt tp name fullPath
                        | LangPython \<Rightarrow> createPythonProject rt tp name fullPath
                        | LangJava \<Rightarrow> createJavaProject rt tp name fullPath) (\<lambda>u'.
               io_return \<lparr>isError = False,
                 content = ''Successfully created '' @ languageName lang
                   @ '' MCP server project '' @ [CHR 0x22] @ name @ [CHR 0x22] @ '' at ''
                   @ render fullPath\<rparr>))))
       (\<lambda>error. io_return \<lparr>isError = True,
                    content = ''Failed to create server: '' @ message rt error\<rparr>)"

section \<open>The single-file implementation (src/index.ts)\<close>

text \<open>
  The repository also holds an older implementation of the same tools in one file. Its
  detection and its registration differ from the modular ones and are modelled under
  their own names.
\<close>

definition determineServerType_index :: "path \<Rightarrow> serverType io" where
  "determineServerType_index directory =
     io_bind (fs_readdir directory) (\<lambda>files.
       if ''package.json'' \<in> set files then io_return Nodejs
       else if ''server.py'' \<in> set files \<or> ''main.py'' \<in> set files then io_return Python
       else if ''pom.xml'' \<in> set files \<or> ''build.gradle'' \<in> set files then io_return Java
       else io_throw (Error ''Unable to determine server type''))"

definition readConfig_index :: "runtime \<Rightarrow> path \<Rightarrow> json io" where
  "readConfig_index rt configPath =
     io_catch
       (io_bind (fs_readFile configPath) (\<lambda>configContent.
          case JSON_parse rt configContent of
            None \<Rightarrow> io_throw (SyntaxError configContent)
          | Some parsed \<Rightarrow>
              io_catch (io_lift (ensureMcpServers parsed)) (\<lambda>error. io_return parsed)))
       (\<lambda>error. io_return defaultConfig)"

definition updateClaudeConfig_index ::
  "runtime \<Rightarrow> path \<Rightarrow> serverType \<Rightarrow> path \<Rightarrow> unit io" where
  "updateClaudeConfig_index rt configPath serverType serverDir =
     io_bind (readConfig_index rt configPath) (\<lambda>config.
     let serverName = basename serverDir in
     io_bind
       (case serverType of
          Nodejs \<Rightarrow>
            io_lift (setServer config serverName
              (launchSpec ''node'' [render (joinPath serverDir [''build'', ''index.js''])]))
        | Python \<Rightarrow>
            io_bind (fileExists (joinPath serverDir [''server.py''])) (\<lambda>hasPyFile.
              if hasPyFile
              then io_lift (setServer config serverName
                     (launchSpec ''uv'' [''--directory'', render serverDir, ''run'', ''server.py'']))
              else io_lift (setServer config serverName
                     (launchSpec ''python'' [''-m'', replaceDashes serverName])))
        | Java \<Rightarrow>
            io_bind (fileExists (joinPath serverDir [''target''])) (\<lambda>isMaven.
              let jarPath = (if isMaven then joinPath serverDir [''target'']
                             else joinPath serverDir [''build'', ''libs'']) in
              io_bind (fs_readdir jarPath) (\<lambda>files.
                case find (\<lambda>file. endsWith file ''.jar'') files of
                  None \<Rightarrow> io_throw (Error ''No jar file found in build directory'')
                | Some jarFile \<Rightarrow>
                    io_lift (setServer config serverName
                      (launchSpec ''java'' [''-jar'', render (joinPath jarPath [jarFile])])))))
       (\<lambda>config'. fs_writeFile configPath (JSON_stringify rt (jsonView config'))))"

section \<open>Observations and examples\<close>

text \<open>
  What a world holds at a path: anything, a directory with its listing as
  \<^verbatim>\<open>readdir\<close> reports it, a file with its content.
\<close>

definition present :: "world \<Rightarrow> path \<Rightarrow> bool" where
  "present w p = (case walk (root w) p of Inl e \<Rightarrow> False | Inr n \<Rightarrow> True)"

definition listing :: "world \<Rightarrow> path \<Rightarrow> string list option" where
  "listing w p =
     (case walk (root w) p of
        Inl e \<Rightarrow> None
      | Inr (File c) \<Rightarrow> None
      | Inr (Dir es) \<Rightarrow> Some (sortNames (map fst es)))"

definition fileAt :: "world \<Rightarrow> path \<Rightarrow> string option" where
  "fileAt w p =
     (case walk (root w) p of
        Inl e \<Rightarrow> None
      | Inr (File c) \<Rightarrow> Some c
      | Inr (Dir es) \<Rightarrow> None)"

text \<open>
  A runtime for the examples: a POSIX machine whose JSON codec prints compactly and
  reads the three documents the examples hold in files, and nothing else. Its paths
  have no dot segments, and it words the errors of the file system as Node does.
\<close>

definition quoted :: "string \<Rightarrow> string" where
  "quoted s = [CHR 0x22] @ s @ [CHR 0x22]"

fun commaSep :: "string list \<Rightarrow> string" where
  "commaSep [] = []"
| "commaSep [x] = x"
| "commaSep (x # y # ys) = x @ '','' @ commaSep (y # ys)"

fun printJson :: "json \<Rightarrow> string" where
  "printJson JNull = ''null''"
| "printJson (JBool b) = (if b then ''true'' else ''false'')"
| "printJson (JNum n) = (if n = ''Infinity'' \<or> n = ''-Infinity'' then ''null'' else n)"
| "printJson (JStr s) = quoted s"
| "printJson (JArr xs ps) = ''['' @ commaSep (map printJson xs) @ '']''"
| "printJson (JObj ps) =
     ''{'' @ commaSep (map (\<lambda>(k, v). quoted k @ '':'' @ printJson v) ps) @ ''}''"

definition exampleParse :: "string \<Rightarrow> json option" where
  "exampleParse s =
     (if s = ''{}'' then Some (JObj [])
      else if s = ''[]'' then Some (JArr [] [])
      else if s = ''{'' @ quoted ''mcpServers'' @ '':[]}''
      then Some (JObj [(''mcpServers'', JArr [] [])])
      else None)"

fun errnoName :: "errno \<Rightarrow> string" where
  "errnoName ENOENT = ''ENOENT''"
| "errnoName ENOTDIR = ''ENOTDIR''"
| "errnoName EISDIR = ''EISDIR''"
| "errnoName EEXIST = ''EEXIST''"

fun errnoText :: "errno \<Rightarrow> string" where
  "errnoText ENOENT = ''no such file or directory''"
| "errnoText ENOTDIR = ''not a directory''"
| "errnoText EISDIR = ''illegal operation on a directory''"
| "errnoText EEXIST = ''file already exists''"

fun exampleNodeMessage :: "exn \<Rightarrow> string" where
  "exampleNodeMessage (SystemError c syscall p) =
     errnoName c @ '': '' @ errnoText c @ '', '' @ syscall
       @ (if syscall = ''read'' then [] else '' '' @ [CHR 0x27] @ render p @ [CHR 0x27])"
| "exampleNodeMessage (SyntaxError s) = ''Unexpected token in JSON''"
| "exampleNodeMessage (TypeError Reading v k) = ''Cannot read properties (reading '' @ k @ '')''"
| "exampleNodeMessage (TypeError Setting v k) = ''Cannot set properties (setting '' @ k @ '')''"
| "exampleNodeMessage RangeError = ''Invalid array length''"
| "exampleNodeMessage (ExecError err msg) = msg"
| "exampleNodeMessage (Error msg) = msg"

definition exampleRuntime :: runtime where
  "exampleRuntime =
     \<lparr>JSON_parse = exampleParse,
      JSON_stringify = printJson,
      path_resolve = (\<lambda>s. segments (splitOn (CHR ''/'') s)),
      path_join = (\<lambda>p s. if s = [] then p
                          else segments p @ segments (splitOn (CHR ''/'') s)
                                 @ (if last s = CHR ''/'' then [''''] else [])),
      homedir = [''home'', ''u''],
      platform = ''darwin'',
      APPDATA = None,
      execAsync = (\<lambda>command cwd. io_return []),
      nodeMessage = exampleNodeMessage\<rparr>"

definition exampleTemplates :: templates where
  "exampleTemplates =
     \<lparr>tsconfigJson = ''{}'',
      indexTs = (\<lambda>name. ''// '' @ name),
      readmeTs = (\<lambda>name directory. ''# '' @ name),
      serverPy = (\<lambda>serverName. ''# '' @ serverName),
      readmePy = (\<lambda>name directory. ''# '' @ name),
      serverJava = (\<lambda>package class name. ''// '' @ name),
      pomXml = (\<lambda>package class name. ''<project/>''),
      readmeJava = (\<lambda>name directory. ''# '' @ name)\<rparr>"

text \<open>
  The projects of the examples, under \<^verbatim>\<open>/srv\<close>, and a world that holds them beside a
  directory \<^verbatim>\<open>/cfg\<close> with the given entries and the home directory \<^verbatim>\<open>/home/u\<close>,
  which holds one more project.
\<close>

definition exampleProjects :: "(string \<times> node) list" where
  "exampleProjects =
     [(''__proto__'', Dir [(''package.json'', File ''{}'')]),
      (''empty'', Dir []),
      (''gradle-app'', Dir [(''build'', Dir [(''libs'', Dir [(''app.jar'', File []),
            (''fat-jar-with-dependencies.jar'', File [])])]),
         (''build.gradle'', File [])]),
      (''mixed'', Dir [(''package.json'', File ''{}''), (''pom.xml'', File [])]),
      (''my-server'', Dir [(''pom.xml'', File []),
         (''target'', Dir [(''my-server-1.0.0-jar-with-dependencies.jar'', File [])])]),
      (''py-mod'', Dir [(''requirements.txt'', File [])]),
      (''py-tool'', Dir [(''server.py'', File [])]),
      (''scripts'', Dir [(''helper.py'', File []), (''pom.xml'', File [])]),
      (''web-tool'', Dir [(''package.json'', File ''{}'')])]"

definition exampleWorld :: "(string \<times> node) list \<Rightarrow> world" where
  "exampleWorld cfg =
     \<lparr>entries = [(''cfg'', Dir cfg),
                 (''home'', Dir [(''u'', Dir [(''py-home'', Dir [(''server.py'', File [])])])]),
                 (''srv'', Dir exampleProjects)],
      calls = []\<rparr>"

section \<open>Running computations\<close>

lemma io_simps:
  "io_return a w = (Inr a, w)"
  "io_throw e w = (Inl e, w)"
  "io_lift r w = (r, w)"
  by (simp_all add: io_return_def io_throw_def io_lift_def)

lemma io_bind_run:
  "io_bind m f w = (case m w of (Inl e, w') \<Rightarrow> (Inl e, w') | (Inr a, w') \<Rightarrow> f a w')"
  by (simp add: io_bind_def)

lemma io_catch_run:
  "io_catch m h w = (case m w of (Inl e, w') \<Rightarrow> h e w' | (Inr a, w') \<Rightarrow> (Inr a, w'))"
  by (simp add: io_catch_def)

lemma fileExists_run: "fileExists p w = (Inr (present w p), w)"
  by (simp add: fileExists_def present_def fs_access_def io_catch_run io_bind_run io_simps
      split: sum.splits)

lemma fs_readdir_listing:
  "listing w p = Some files \<Longrightarrow> fs_readdir p w = (Inr files, w)"
  by (auto simp: fs_readdir_def listing_def split: sum.splits node.splits)

lemma fs_readFile_fileAt:
  "fileAt w p = Some c \<Longrightarrow> fs_readFile p w = (Inr c, w)"
  by (auto simp: fs_readFile_def fileAt_def split: sum.splits node.splits)

lemma set_insertName: "set (insertName x names) = insert x (set names)"
  by (induction names) auto

lemma set_sortNames: "set (sortNames names) = set names"
  by (induction names) (simp_all add: sortNames_def set_insertName)

lemma segments_clean: "[] \<notin> set p \<Longrightarrow> segments p = p"
  by (induction p) (auto simp: segments_def)

lemma walk_append:
  "walk n (p @ q) = (case walk n p of Inl e \<Rightarrow> Inl e | Inr m \<Rightarrow> walk m q)"
  by (induction n p rule: walk.induct) (auto split: option.splits)

lemma walk_segments: "walk n p = Inr m \<Longrightarrow> walk n (segments p) = Inr m"
  by (induction n p rule: walk.induct) (auto simp: segments_def split: option.splits if_splits)

lemma present_child:
  assumes "listing w dir = Some files" and "x \<noteq> []"
  shows "present w (joinPath dir [x]) = (x \<in> set files)"
proof -
  from assms(1) obtain es where es: "walk (root w) dir = Inr (Dir es)"
    and files: "files = sortNames (map fst es)"
    by (auto simp: listing_def split: sum.splits node.splits)
  have "present w (joinPath dir [x]) = (map_of es x \<noteq> None)"
    using assms(2)
    by (simp add: present_def joinPath_def walk_append walk_segments[OF es] split: option.splits)
  then show ?thesis
    by (simp add: map_of_eq_None_iff files set_sortNames)
qed

lemma listing_present: "listing w p = Some files \<Longrightarrow> present w p"
  by (auto simp: listing_def present_def split: sum.splits)

lemma fileAt_present: "fileAt w p = Some c \<Longrightarrow> present w p"
  by (auto simp: fileAt_def present_def split: sum.splits)

lemma fileAt_walk: "fileAt w p = Some c \<Longrightarrow> walk (root w) p = Inr (File c)"
  by (auto simp: fileAt_def split: sum.splits node.splits)

lemma fileAt_not_root: "fileAt w p = Some c \<Longrightarrow> segments p \<noteq> []"
  using walk_segments[OF fileAt_walk, of w p c] by (auto simp: root_def)

section \<open>The file system calls\<close>

lemma mkdirs_Dir: "mkdirs (Dir es) p = Inr n \<Longrightarrow> \<exists>es'. n = Dir es'"
  by (induction p) (auto split: sum.splits if_splits)

lemma putFile_Dir: "putFile (Dir es) p c = Inr n \<Longrightarrow> \<exists>es'. n = Dir es'"
  by (induction p) (auto split: sum.splits option.splits if_splits)

lemma putFile_walk: "putFile n p c = Inr n' \<Longrightarrow> walk n' p = Inr (File c)"
proof (induction n p c arbitrary: n' rule: putFile.induct)
  case (4 es s p c)
  show ?case
  proof (cases "s = []")
    case True
    with 4 have "putFile (Dir es) p c = Inr n'" "walk n' p = Inr (File c)" by auto
    with True show ?thesis by (auto dest: putFile_Dir)
  next
    case False
    with 4 show ?thesis
      by (auto simp: update_conv' split: option.splits if_splits sum.splits)
  qed
qed auto

lemma mkdirs_existing: "walk n p = Inr (Dir es) \<Longrightarrow> mkdirs n p = Inr n"
  by (induction n p rule: walk.induct)
     (auto simp: update_triv split: option.splits if_splits)

lemma mkdirs_fresh: "\<exists>n. mkdirs (Dir []) p = Inr n"
  by (induction p) auto

lemma walk_parent:
  assumes "walk n p = Inr m" "p \<noteq> []"
  shows "\<exists>es. walk n (butlast p) = Inr (Dir es)"
proof -
  have "walk n (butlast p @ [last p]) = Inr m" using assms by simp
  then show ?thesis
    by (cases "walk n (butlast p)"; cases "projr (walk n (butlast p))")
       (auto simp: walk_append split: sum.splits if_splits)
qed

lemma putFile_over_file: "walk n p = Inr (File c) \<Longrightarrow> \<exists>n'. putFile n p c' = Inr n'"
  by (induction n p rule: walk.induct)
     (auto split: option.splits node.splits if_splits)

lemma mkdirs_walk: "mkdirs n p = Inr n' \<Longrightarrow> \<exists>es. walk n' p = Inr (Dir es)"
proof (induction n p arbitrary: n' rule: mkdirs.induct)
  case (4 es s p)
  show ?case
  proof (cases "s = []")
    case True
    with 4 have "mkdirs (Dir es) p = Inr n'" "\<exists>es. walk n' p = Inr (Dir es)" by auto
    with True show ?thesis by (auto dest: mkdirs_Dir)
  next
    case False
    with 4 show ?thesis
      by (auto simp: update_conv' split: sum.splits option.splits)
  qed
qed auto

lemma mkdirs_idem: "mkdirs n p = Inr n' \<Longrightarrow> mkdirs n' p = Inr n'"
  using mkdirs_walk mkdirs_existing by blast

lemma mkdirs_parent_of_missing:
  "[] \<notin> set p \<Longrightarrow> walk n p = Inl ENOENT \<Longrightarrow> \<exists>n'. mkdirs n (butlast p) = Inr n'"
proof (induction n p rule: walk.induct)
  case (1 n)
  then show ?case by simp
next
  case (2 c s p)
  then show ?case by simp
next
  case (3 es s p)
  then have s: "s \<noteq> []" and p: "[] \<notin> set p" by auto
  show ?case
  proof (cases "map_of es s")
    case None
    then show ?thesis using mkdirs_fresh[of "butlast p"] s by auto
  next
    case (Some k)
    with 3 s have "walk k p = Inl ENOENT" by simp
    then have "p \<noteq> []" by auto
    with 3 Some s p show ?thesis by auto
  qed
qed

lemma putFile_after_mkdirs:
  "[] \<notin> set p \<Longrightarrow> walk n p = Inl ENOENT \<Longrightarrow> mkdirs n (butlast p) = Inr n' \<Longrightarrow>
   \<exists>n''. putFile n' p c = Inr n''"
proof (induction p arbitrary: n n')
  case Nil
  then show ?case by simp
next
  case (Cons s q)
  then have s: "s \<noteq> []" and q: "[] \<notin> set q" by auto
  from Cons.prems obtain es where n: "n = Dir es" by (cases n) auto
  show ?case
  proof (cases "map_of es s")
    case None
    show ?thesis
    proof (cases "q = []")
      case True
      with Cons.prems n None s show ?thesis by auto
    next
      case False
      then have w: "walk (Dir []) q = Inl ENOENT" using q by (cases q) auto
      from Cons.prems(3) n None False s obtain m where
        m: "mkdirs (Dir []) (butlast q) = Inr m" "n' = Dir (AList.update s m es)"
        by (auto split: sum.splits)
      from Cons.IH[OF q w m(1)] obtain m' where "putFile m q c = Inr m'" by blast
      then show ?thesis using s by (simp add: m(2) update_conv')
    qed
  next
    case (Some k)
    with Cons.prems(2) n s have w: "walk k q = Inl ENOENT" by simp
    then have "q \<noteq> []" by auto
    with Cons.prems(3) n Some s obtain k' where
      m: "mkdirs k (butlast q) = Inr k'" "n' = Dir (AList.update s k' es)"
      by (auto split: sum.splits)
    from Cons.IH[OF q w m(1)] obtain m' where "putFile k' q c = Inr m'" by blast
    then show ?thesis using s by (simp add: m(2) update_conv')
  qed
qed

lemma root_entries_children:
  "mkdirs (root w) p = Inr n \<Longrightarrow> root (w\<lparr>entries := children n, calls := cs\<rparr>) = n"
  by (auto simp: root_def dest: mkdirs_Dir)

lemma root_entries_children':
  "putFile (Dir es) p c = Inr n \<Longrightarrow> root (w\<lparr>entries := children n, calls := cs\<rparr>) = n"
  by (auto simp: root_def dest: putFile_Dir)

lemma fs_writeFile_success:
  assumes "fs_writeFile p c w = (Inr u, w')"
  shows "fileAt w' p = Some c"
proof -
  from assms obtain n' where
    n': "putFile (root w) p c = Inr n'"
    and w': "w' = w\<lparr>entries := children n', calls := calls w @ [WriteFile p c]\<rparr>"
    by (auto simp: fs_writeFile_def split: sum.splits)
  from n' have "root w' = n'" by (auto simp: w' root_def dest: putFile_Dir)
  then show ?thesis using putFile_walk[OF n'] by (simp add: fileAt_def)
qed

lemma writeJsonFile_run:
  "writeJsonFile rt p doc w =
     (case mkdirs (root w) (dirname p) of
        Inl e \<Rightarrow> (Inl (Error (''Failed to write JSON file '' @ render p @ '': ''
                         @ nodeMessage rt (SystemError e ''mkdir'' (dirname p)))),
                  w\<lparr>calls := calls w @ [Mkdir (dirname p)]\<rparr>)
      | Inr n \<Rightarrow>
          (case putFile n p (JSON_stringify rt (jsonView doc)) of
             Inl e \<Rightarrow> (Inl (Error (''Failed to write JSON file '' @ render p @ '': ''
                              @ nodeMessage rt (SystemError e ''open'' p))),
                       w\<lparr>entries := children n,
                         calls := calls w @ [Mkdir (dirname p),
                                   WriteFile p (JSON_stringify rt (jsonView doc))]\<rparr>)
           | Inr n' \<Rightarrow> (Inr (),
                       w\<lparr>entries := children n',
                         calls := calls w @ [Mkdir (dirname p),
                                   WriteFile p (JSON_stringify rt (jsonView doc))]\<rparr>)))"
  by (auto simp: writeJsonFile_def io_catch_run io_bind_run fs_mkdir_def fs_writeFile_def io_simps
       root_entries_children split: sum.splits)

lemma writeJsonFile_success:
  assumes "writeJsonFile rt p doc w = (Inr u, w')"
  shows "fileAt w' p = Some (JSON_stringify rt (jsonView doc))"
proof -
  from assms obtain n n' where
    n: "mkdirs (root w) (dirname p) = Inr n"
    and n': "putFile n p (JSON_stringify rt (jsonView doc)) = Inr n'"
    and w': "w' = w\<lparr>entries := children n',
                 calls := calls w @ [Mkdir (dirname p), WriteFile p (JSON_stringify rt (jsonView doc))]\<rparr>"
    by (auto simp: writeJsonFile_run split: sum.splits)
  from n obtain es where "n = Dir es" by (auto simp: root_def dest: mkdirs_Dir)
  with n' have "root w' = n'" by (simp add: w' root_entries_children')
  then show ?thesis using putFile_walk[OF n'] by (simp add: fileAt_def)
qed

lemma writeJsonFile_over_file:
  assumes "fileAt w p = Some c"
  shows "\<exists>w'. writeJsonFile rt p doc w = (Inr (), w') \<and> calls w' =
           calls w @ [Mkdir (dirname p), WriteFile p (JSON_stringify rt (jsonView doc))]"
proof -
  note f = fileAt_walk[OF assms]
  from walk_parent[OF walk_segments[OF f] fileAt_not_root[OF assms]] obtain es where
    "walk (root w) (butlast (segments p)) = Inr (Dir es)" by blast
  then have m: "mkdirs (root w) (dirname p) = Inr (root w)"
    by (simp add: dirname_def mkdirs_existing)
  from putFile_over_file[OF f] obtain n' where
    "putFile (root w) p (JSON_stringify rt (jsonView doc)) = Inr n'" by blast
  with m show ?thesis by (simp add: writeJsonFile_run)
qed

lemma writeJsonFile_missing_file:
  assumes "[] \<notin> set p"
    and "walk (root w) p = Inl ENOENT"
    and mk: "mkdirs (root w) (dirname p) = Inr n"
    and root1: "root w1 = n"
  shows "\<exists>w'. writeJsonFile rt p doc w1 = (Inr (), w')"
proof -
  have d: "dirname p = butlast p"
    by (simp add: dirname_def segments_clean[OF assms(1)])
  obtain n' where pf: "putFile n p (JSON_stringify rt (jsonView doc)) = Inr n'"
    using putFile_after_mkdirs[OF assms(1,2) mk[unfolded d]] by blast
  have "mkdirs (root w1) (dirname p) = Inr n"
    using mkdirs_idem[OF mk] root1 by simp
  then show ?thesis
    by (simp add: writeJsonFile_run pf)
qed

section \<open>Reading the configuration and assigning the entry\<close>

lemma readJsonFile_run:
  "fileAt w p = Some c \<Longrightarrow>
   readJsonFile rt p w =
     (case JSON_parse rt c of
        None \<Rightarrow> (Inl (Error (''Failed to read JSON file '' @ render p @ '': ''
                          @ nodeMessage rt (SyntaxError c))), w)
      | Some v \<Rightarrow> (Inr v, w))"
  by (simp add: readJsonFile_def io_catch_run io_bind_run fs_readFile_fileAt io_simps
      split: option.splits)

lemma readConfig_corrupt:
  "fileAt w cfg = Some c \<Longrightarrow> JSON_parse rt c = None \<Longrightarrow>
   readConfig rt cfg w = (Inr defaultConfig, w)"
  by (simp add: readConfig_def io_catch_run io_bind_run fileExists_run fileAt_present
      readJsonFile_run io_simps)

lemma readConfig_index_corrupt:
  "fileAt w cfg = Some c \<Longrightarrow> JSON_parse rt c = None \<Longrightarrow>
   readConfig_index rt cfg w = (Inr defaultConfig, w)"
  by (simp add: readConfig_index_def io_catch_run io_bind_run fs_readFile_fileAt io_simps)

lemma readConfig_parsed:
  "fileAt w cfg = Some c \<Longrightarrow> JSON_parse rt c = Some v \<Longrightarrow>
   readConfig rt cfg w =
     (Inr (case ensureMcpServers v of Inl e \<Rightarrow> v | Inr v' \<Rightarrow> v'), w)"
  by (simp add: readConfig_def io_catch_run io_bind_run fileExists_run fileAt_present
      readJsonFile_run io_simps split: sum.splits)

lemma readConfig_missing:
  "\<not> present w cfg \<Longrightarrow>
   readConfig rt cfg w =
     (Inr defaultConfig,
      case mkdirs (root w) (dirname cfg) of
        Inl e \<Rightarrow> w\<lparr>calls := calls w @ [Mkdir (dirname cfg)]\<rparr>
      | Inr n \<Rightarrow> w\<lparr>entries := children n, calls := calls w @ [Mkdir (dirname cfg)]\<rparr>)"
  by (simp add: readConfig_def io_catch_run io_bind_run fileExists_run fs_mkdir_def io_simps
      split: sum.splits)

lemma not_index_mcpServers: "\<not> isArrayIndex ''mcpServers''"
  by (simp add: isArrayIndex_def)

lemma map_of_insertIndexKey: "map_of (insertIndexKey k v ps) = (map_of ps)(k \<mapsto> v)"
  by (induction ps) (auto simp: fun_upd_twist)

lemma map_of_setOwn: "map_of (setOwn k v ps) = (map_of ps)(k \<mapsto> v)"
  by (auto simp: setOwn_def update_conv' map_of_insertIndexKey map_add_def
      split: option.splits)

lemma setOwn_fresh: "setOwn k v [] = [(k, v)]"
  by (simp add: setOwn_def)

lemma setOwn_head: "setOwn k v ((k, v') # ps) = (k, v) # ps"
  by (simp add: setOwn_def)

lemma setServer_failure_any_spec:
  "setServer config name spec = Inl e \<Longrightarrow> setServer config name spec' = Inl e"
  by (cases config; cases "getMcpServers config")
     (auto simp: setServer_def not_index_mcpServers
       split: option.splits sum.splits json.splits if_splits
       elim!: assignProperty.elims)

lemma setServer_default:
  "name \<noteq> ''__proto__'' \<Longrightarrow>
   setServer defaultConfig name spec = Inr (JObj [(''mcpServers'', JObj [(name, spec)])])"
  by (simp add: setServer_def defaultConfig_def setOwn_fresh setOwn_head)

lemma setServer_default_ok: "\<exists>config'. setServer defaultConfig name spec = Inr config'"
  by (simp add: setServer_def defaultConfig_def)

lemma setServer_object_registry:
  "map_of ps ''mcpServers'' = Some (JObj ms) \<Longrightarrow> name \<noteq> ''__proto__'' \<Longrightarrow>
   setServer (JObj ps) name spec =
     Inr (JObj (setOwn ''mcpServers'' (JObj (setOwn name spec ms)) ps))"
  by (simp add: setServer_def)

lemma configureNodejs_run:
  "configureNodejs config name dir w =
     (setServer config name (launchSpec ''node'' [render (joinPath dir [''build'', ''index.js''])]), w)"
  by (simp add: configureNodejs_def io_simps)

lemma configurePython_entry_file:
  "present w (joinPath dir [''server.py'']) \<Longrightarrow>
   configurePython config name dir w =
     (setServer config name
        (launchSpec ''uv'' [''--directory'', render dir, ''run'', ''server.py'']), w)"
  by (auto simp: configurePython_def io_bind_run io_catch_run fileExists_run io_simps
      split: sum.splits dest: setServer_failure_any_spec)

lemma configurePython_module:
  "\<not> present w (joinPath dir [''server.py'']) \<Longrightarrow>
   configurePython config name dir w =
     (setServer config name (launchSpec ''python'' [''-m'', replaceDashes name]), w)"
  by (simp add: configurePython_def io_bind_run fileExists_run io_simps)

lemma configureJava_success:
  "configureJava config name dir w = (Inr config', w') \<Longrightarrow>
   w' = w \<and> (\<exists>command args. setServer config name (launchSpec command args) = Inr config')"
  by (auto simp: configureJava_def io_bind_run fileExists_run io_simps fs_readdir_def
      split: option.splits if_splits sum.splits node.splits)

lemma configure_success:
  assumes "(case ty of Nodejs \<Rightarrow> configureNodejs config name dir
            | Python \<Rightarrow> configurePython config name dir
            | Java \<Rightarrow> configureJava config name dir) w = (Inr config', w')"
  shows "w' = w \<and> (\<exists>command args. setServer config name (launchSpec command args) = Inr config')"
proof (cases ty)
  case Nodejs
  with assms show ?thesis by (auto simp: configureNodejs_run)
next
  case Python
  with assms show ?thesis
    by (cases "present w (joinPath dir [''server.py''])")
       (auto simp: configurePython_entry_file configurePython_module)
next
  case Java
  with assms show ?thesis by (auto dest: configureJava_success)
qed

lemma updateClaudeConfig_success:
  assumes "updateClaudeConfig rt cfg ty name dir w = (Inr u, w')"
  shows "\<exists>config command args config'.
           fst (readConfig rt cfg w) = Inr config
         \<and> setServer config name (launchSpec command args) = Inr config'
         \<and> fileAt w' cfg = Some (JSON_stringify rt (jsonView config'))"
proof -
  obtain r w1 where r: "readConfig rt cfg w = (r, w1)" by (cases "readConfig rt cfg w")
  from assms r obtain config where c: "r = Inr config"
    by (cases r) (auto simp: updateClaudeConfig_def io_catch_run io_bind_run io_simps)
  let ?branch = "case ty of Nodejs \<Rightarrow> configureNodejs config name dir
    | Python \<Rightarrow> configurePython config name dir
    | Java \<Rightarrow> configureJava config name dir"
  obtain r2 w2 where r2: "?branch w1 = (r2, w2)" by (cases "?branch w1")
  from assms r c r2 obtain config' where c': "r2 = Inr config'"
    by (cases r2) (auto simp: updateClaudeConfig_def io_catch_run io_bind_run io_simps)
  from configure_success[OF r2[unfolded c']] obtain command args where
    s: "w2 = w1" "setServer config name (launchSpec command args) = Inr config'" by blast
  from assms r c r2 c' have "writeJsonFile rt cfg config' w2 = (Inr u, w')"
    by (auto simp: updateClaudeConfig_def io_catch_run io_bind_run io_simps
        split: prod.splits sum.splits)
  from writeJsonFile_success[OF this] r c s show ?thesis by auto
qed

section \<open>Evaluating the examples\<close>

text \<open>The definitions a run of the install tool on an example world unfolds.\<close>

lemmas example_defs =
  exampleWorld_def exampleProjects_def exampleRuntime_def root_def listing_def present_def
  fileAt_def sortNames_def segments_def joinPath_def

lemmas run_defs =
  installServerTool_def updateClaudeConfig_def readConfig_def determineServerType_def
  configureNodejs_def configurePython_def configureJava_def
  readJsonFile_def writeJsonFile_def fileExists_def resolvePath_def getDefaultClaudeConfigPath_def
  fs_access_def fs_readdir_def fs_readFile_def fs_mkdir_def fs_writeFile_def
  io_bind_def io_catch_def io_return_def io_throw_def io_lift_def
  setServer_def ensureMcpServers_def launchSpec_def defaultConfig_def
  render_def basename_def dirname_def setOwn_def
  endsWith_def replaceDashes_def isArrayIndex_def exampleParse_def quoted_def Let_def

section \<open>Detection\<close>

text \<open>
  C6. A directory whose listing holds \<^verbatim>\<open>package.json\<close> together with \<^verbatim>\<open>pom.xml\<close> or
  \<^verbatim>\<open>build.gradle\<close> is detected as a typed-script (Node.js) project: the first rule
  wins. This holds for the detector of the install tool and for the one of the
  single-file implementation.
\<close>

theorem typed_script_manifest_wins:
  assumes "listing w directory = Some files"
    and "''package.json'' \<in> set files"
    and "''pom.xml'' \<in> set files \<or> ''build.gradle'' \<in> set files"
  shows "determineServerType rt directory w = (Inr Nodejs, w)
       \<and> determineServerType_index directory w = (Inr Nodejs, w)"
  using assms(2)
  by (simp add: determineServerType_def determineServerType_index_def io_catch_run io_bind_run
      fs_readdir_listing[OF assms(1)] io_simps)

theorem typed_script_manifest_wins_witness:
  "listing (exampleWorld []) [''srv'', ''mixed''] = Some [''package.json'', ''pom.xml'']
   \<and> determineServerType exampleRuntime [''srv'', ''mixed''] (exampleWorld [])
       = (Inr Nodejs, exampleWorld [])
   \<and> determineServerType_index [''srv'', ''mixed''] (exampleWorld [])
       = (Inr Nodejs, exampleWorld [])"
proof -
  have l: "listing (exampleWorld []) [''srv'', ''mixed''] = Some [''package.json'', ''pom.xml'']"
    by (simp add: example_defs)
  show ?thesis
    using typed_script_manifest_wins[OF l, of exampleRuntime] l by simp
qed

text \<open>
  C7, as the code has it. Detection is decided by the names listed in the directory
  and by whether \<^verbatim>\<open>build/libs\<close> exists under it: \<^verbatim>\<open>package.json\<close> gives Node.js;
  otherwise \<^verbatim>\<open>server.py\<close>, \<^verbatim>\<open>requirements.txt\<close>, \<^verbatim>\<open>pyproject.toml\<close> or any entry
  whose name ends in \<^verbatim>\<open>.py\<close> gives Python; otherwise \<^verbatim>\<open>pom.xml\<close>,
  \<^verbatim>\<open>build.gradle\<close>, an entry \<^verbatim>\<open>target\<close> or an existing \<^verbatim>\<open>build/libs\<close> gives Java;
  otherwise, and so for an empty directory, detection throws "Unable to determine
  server type". A directory that meets exactly one of the three rules is detected as
  that rule's kind.
\<close>

theorem detection_by_rules:
  assumes "listing w directory = Some files"
  shows "determineServerType rt directory w =
     (if ''package.json'' \<in> set files then Inr Nodejs
      else if ''server.py'' \<in> set files \<or> list_ex (\<lambda>file. endsWith file ''.py'') files
              \<or> ''requirements.txt'' \<in> set files \<or> ''pyproject.toml'' \<in> set files
      then Inr Python
      else if ''pom.xml'' \<in> set files \<or> ''build.gradle'' \<in> set files
              \<or> ''target'' \<in> set files \<or> present w (joinPath directory [''build'', ''libs''])
      then Inr Java
      else Inl (Error (''Failed to determine server type: ''
              @ ''Unable to determine server type in directory: '' @ render directory)), w)"
  using present_child[OF assms, of "''target''"]
  by (simp add: determineServerType_def io_catch_run io_bind_run fs_readdir_listing[OF assms]
       io_simps fileExists_run)

theorem detection_by_rules_witness:
  "listing (exampleWorld []) [''srv'', ''empty''] = Some []
   \<and> determineServerType exampleRuntime [''srv'', ''empty''] (exampleWorld []) =
       (Inl (Error (''Failed to determine server type: ''
          @ ''Unable to determine server type in directory: /srv/empty'')), exampleWorld [])
   \<and> determineServerType exampleRuntime [''srv'', ''py-mod''] (exampleWorld [])
       = (Inr Python, exampleWorld [])"
proof -
  have l: "listing (exampleWorld []) [''srv'', ''empty''] = Some []"
    by (simp add: example_defs)
  have m: "listing (exampleWorld []) [''srv'', ''py-mod''] = Some [''requirements.txt'']"
    by (simp add: example_defs)
  have p: "\<not> present (exampleWorld []) (joinPath [''srv'', ''empty''] [''build'', ''libs''])"
    by (simp add: example_defs)
  show ?thesis
    using detection_by_rules[OF l, of exampleRuntime] detection_by_rules[OF m, of exampleRuntime]
      l p
    by (simp add: render_def)
qed

text \<open>
  C7 as stated fails: the directory \<^verbatim>\<open>/srv/scripts\<close> lists \<^verbatim>\<open>pom.xml\<close>, the marker
  of a JVM project, and \<^verbatim>\<open>helper.py\<close>, which is no manifest and no entry point of any
  ecosystem; it holds exactly one of the three markers, and detection answers Python.
\<close>

theorem detection_py_suffix_counterexample:
  "listing (exampleWorld []) [''srv'', ''scripts''] = Some [''helper.py'', ''pom.xml'']
   \<and> determineServerType exampleRuntime [''srv'', ''scripts''] (exampleWorld [])
       = (Inr Python, exampleWorld [])"
proof -
  have l: "listing (exampleWorld []) [''srv'', ''scripts''] = Some [''helper.py'', ''pom.xml'']"
    by (simp add: example_defs)
  show ?thesis
    by (simp add: l determineServerType_def io_catch_run io_bind_run fs_readdir_listing[OF l]
        io_simps endsWith_def)
qed

section \<open>The configuration file\<close>

text \<open>
  C1, as the code has it. When the config file exists and does not parse, the error of
  \<open>readJsonFile\<close> is caught inside \<open>updateClaudeConfig\<close> (a warning is logged) and the
  registry is taken to be the default \<^verbatim>\<open>{ mcpServers: {} }\<close>, in both implementations;
  nothing fails on that account (a Node.js project installs), and a successful install
  writes the default document with the new entry over the file.
\<close>

theorem corrupt_config_read_as_empty:
  assumes "fileAt w configPath = Some c" and "JSON_parse rt c = None"
  shows "readConfig rt configPath w = (Inr defaultConfig, w)
       \<and> readConfig_index rt configPath w = (Inr defaultConfig, w)
       \<and> fst (updateClaudeConfig rt configPath Nodejs serverName serverDir w) = Inr ()
       \<and> (updateClaudeConfig rt configPath serverType serverName serverDir w = (Inr u, w') \<longrightarrow>
            (\<exists>command args config'.
               setServer defaultConfig serverName (launchSpec command args) = Inr config'
             \<and> fileAt w' configPath = Some (JSON_stringify rt (jsonView config'))))"
proof -
  note rc = readConfig_corrupt[OF assms]
  obtain config' where
    s: "setServer defaultConfig serverName
          (launchSpec ''node'' [render (joinPath serverDir [''build'', ''index.js''])]) = Inr config'"
    using setServer_default_ok by blast
  from writeJsonFile_over_file[OF assms(1), of rt config'] obtain w2 where
    "writeJsonFile rt configPath config' w = (Inr (), w2)" by blast
  then have "fst (updateClaudeConfig rt configPath Nodejs serverName serverDir w) = Inr ()"
    by (simp add: updateClaudeConfig_def io_catch_run io_bind_run rc configureNodejs_run s)
  moreover have "updateClaudeConfig rt configPath serverType serverName serverDir w = (Inr u, w')
      \<longrightarrow> (\<exists>command args config'.
               setServer defaultConfig serverName (launchSpec command args) = Inr config'
             \<and> fileAt w' configPath = Some (JSON_stringify rt (jsonView config')))"
    using updateClaudeConfig_success[of rt configPath serverType serverName serverDir w u w'] rc
    by auto
  ultimately show ?thesis
    using rc readConfig_index_corrupt[OF assms] by simp
qed

theorem corrupt_config_read_as_empty_witness:
  "fileAt (exampleWorld [(''claude.json'', File ''{ not json'')]) [''cfg'', ''claude.json'']
     = Some ''{ not json''
   \<and> JSON_parse exampleRuntime ''{ not json'' = None
   \<and> readConfig exampleRuntime [''cfg'', ''claude.json'']
        (exampleWorld [(''claude.json'', File ''{ not json'')])
       = (Inr defaultConfig, exampleWorld [(''claude.json'', File ''{ not json'')])
   \<and> fst (updateClaudeConfig exampleRuntime [''cfg'', ''claude.json''] Nodejs ''web-tool''
          [''srv'', ''web-tool''] (exampleWorld [(''claude.json'', File ''{ not json'')]))
       = Inr ()"
proof -
  let ?w = "exampleWorld [(''claude.json'', File ''{ not json'')]"
  have a: "fileAt ?w [''cfg'', ''claude.json''] = Some ''{ not json''"
    by (simp add: example_defs)
  have b: "JSON_parse exampleRuntime ''{ not json'' = None"
    by (simp add: exampleRuntime_def exampleParse_def quoted_def)
  show ?thesis
    using corrupt_config_read_as_empty[OF a b, of "''web-tool''" "[''srv'', ''web-tool'']"] a b
    by simp
qed

text \<open>
  C1 as stated fails: with \<^verbatim>\<open>/cfg/claude.json\<close> holding text that does not parse,
  installing the Node.js project \<^verbatim>\<open>/srv/web-tool\<close> reports success and replaces the
  content of the file.
\<close>

theorem corrupt_config_overwritten_counterexample:
  "JSON_parse exampleRuntime ''{ not json'' = None
   \<and> fileAt (exampleWorld [(''claude.json'', File ''{ not json'')]) [''cfg'', ''claude.json'']
       = Some ''{ not json''
   \<and> fst (installServerTool exampleRuntime ''/srv/web-tool'' (Some ''/cfg/claude.json'')
          (exampleWorld [(''claude.json'', File ''{ not json'')]))
       = Inr \<lparr>isError = False,
              content = ''Successfully installed MCP server '' @ quoted ''web-tool''
                @ '' at /srv/web-tool in Claude Desktop config at /cfg/claude.json''\<rparr>
   \<and> fileAt (snd (installServerTool exampleRuntime ''/srv/web-tool'' (Some ''/cfg/claude.json'')
          (exampleWorld [(''claude.json'', File ''{ not json'')]))) [''cfg'', ''claude.json'']
       = Some (printJson (JObj [(''mcpServers'', JObj [(''web-tool'',
            launchSpec ''node'' [''/srv/web-tool/build/index.js''])])]))"
  by (simp add: run_defs example_defs)

text \<open>
  When nothing exists at the config path (and no ancestor of it is a file), reading the
  configuration does not fail: it creates the parent directories and yields the empty
  registry. A Node.js project, which needs no artifact, installs; and whenever an
  install under a name other than \<^verbatim>\<open>__proto__\<close> succeeds, the file it wrote holds a
  document with exactly one entry under \<^verbatim>\<open>mcpServers\<close>, a launch spec under the
  server's name.
\<close>

lemma missing_config_bootstrap:
  assumes "[] \<notin> set configPath"
    and "walk (root w) configPath = Inl ENOENT"
    and "serverName \<noteq> ''__proto__''"
  shows "(\<exists>w1. readConfig rt configPath w = (Inr defaultConfig, w1)
              \<and> listing w1 (dirname configPath) \<noteq> None)
       \<and> (\<exists>w'. updateClaudeConfig rt configPath Nodejs serverName serverDir w = (Inr (), w')
              \<and> fileAt w' configPath =
                  Some (JSON_stringify rt
                    (JObj [(''mcpServers'', JObj [(serverName,
                       JObj [(''command'', JStr ''node''),
                             (''args'', JArr [JStr (render (joinPath serverDir
                                [''build'', ''index.js'']))] [])])])])))
       \<and> (updateClaudeConfig rt configPath serverType serverName serverDir w = (Inr u, w') \<longrightarrow>
            (\<exists>command args.
               fileAt w' configPath =
                 Some (JSON_stringify rt
                   (JObj [(''mcpServers'', JObj [(serverName,
                      JObj [(''command'', JStr command),
                            (''args'', JArr (map JStr args) [])])])]))))"
proof -
  have absent: "\<not> present w configPath"
    using assms(2) by (simp add: present_def)
  have d: "dirname configPath = butlast configPath"
    by (simp add: dirname_def segments_clean[OF assms(1)])
  obtain n where mk: "mkdirs (root w) (dirname configPath) = Inr n"
    using mkdirs_parent_of_missing[OF assms(1,2)] by (auto simp: d)
  define w1 where "w1 = w\<lparr>entries := children n, calls := calls w @ [Mkdir (dirname configPath)]\<rparr>"
  have rc: "readConfig rt configPath w = (Inr defaultConfig, w1)"
    by (simp add: readConfig_missing[OF absent] mk w1_def)
  have root1: "root w1 = n"
    unfolding w1_def by (rule root_entries_children[OF mk])
  obtain es where "walk n (dirname configPath) = Inr (Dir es)"
    using mkdirs_walk[OF mk] by blast
  then have ls: "listing w1 (dirname configPath) \<noteq> None"
    by (simp add: listing_def root1)
  let ?spec = "launchSpec ''node'' [render (joinPath serverDir [''build'', ''index.js''])]"
  let ?doc = "JObj [(''mcpServers'', JObj [(serverName, ?spec)])]"
  from writeJsonFile_missing_file[OF assms(1,2) mk root1, of rt ?doc] obtain w2 where
    wr: "writeJsonFile rt configPath ?doc w1 = (Inr (), w2)" by blast
  then have run: "updateClaudeConfig rt configPath Nodejs serverName serverDir w = (Inr (), w2)"
    by (simp add: updateClaudeConfig_def io_catch_run io_bind_run rc configureNodejs_run
        setServer_default[OF assms(3)])
  have "fileAt w2 configPath = Some (JSON_stringify rt (jsonView ?doc))"
    by (rule writeJsonFile_success[OF wr])
  then have node: "\<exists>w'. updateClaudeConfig rt configPath Nodejs serverName serverDir w = (Inr (), w')
              \<and> fileAt w' configPath =
                  Some (JSON_stringify rt
                    (JObj [(''mcpServers'', JObj [(serverName,
                       JObj [(''command'', JStr ''node''),
                             (''args'', JArr [JStr (render (joinPath serverDir
                                [''build'', ''index.js'']))] [])])])]))"
    using run by (simp add: launchSpec_def)
  have "updateClaudeConfig rt configPath serverType serverName serverDir w = (Inr u, w') \<longrightarrow>
            (\<exists>command args.
               fileAt w' configPath =
                 Some (JSON_stringify rt
                   (JObj [(''mcpServers'', JObj [(serverName,
                      JObj [(''command'', JStr command),
                            (''args'', JArr (map JStr args) [])])])])))"
  proof
    assume "updateClaudeConfig rt configPath serverType serverName serverDir w = (Inr u, w')"
    from updateClaudeConfig_success[OF this] rc obtain command args config' where
      s: "setServer defaultConfig serverName (launchSpec command args) = Inr config'"
      and f: "fileAt w' configPath = Some (JSON_stringify rt (jsonView config'))"
      by auto
    from s have "config' = JObj [(''mcpServers'', JObj [(serverName, launchSpec command args)])]"
      by (simp add: setServer_default[OF assms(3)])
    then have "jsonView config' = JObj [(''mcpServers'', JObj [(serverName,
                      JObj [(''command'', JStr command),
                            (''args'', JArr (map JStr args) [])])])]"
      by (simp add: launchSpec_def comp_def)
    with f show "\<exists>command args.
               fileAt w' configPath =
                 Some (JSON_stringify rt
                   (JObj [(''mcpServers'', JObj [(serverName,
                      JObj [(''command'', JStr command),
                            (''args'', JArr (map JStr args) [])])])]))"
      by auto
  qed
  with rc ls node show ?thesis by blast
qed

text \<open>
  C8 fails for a project directory named \<^verbatim>\<open>__proto__\<close>. Nothing exists at
  \<^verbatim>\<open>/cfg/new/claude.json\<close>; installing the Node.js project \<^verbatim>\<open>/srv/__proto__\<close>
  creates \<^verbatim>\<open>/cfg/new\<close>, starts from the empty registry and assigns
  \<^verbatim>\<open>config.mcpServers["__proto__"]\<close>, which sets the prototype of the registry and
  no property of it: the install reports success and the new file holds a registry
  with no entry. The same install of \<^verbatim>\<open>/srv/web-tool\<close> writes its one entry.
\<close>

theorem bootstrap_writes_no_entry:
  "walk (root (exampleWorld [])) [''cfg'', ''new'', ''claude.json''] = Inl ENOENT
   \<and> listing (exampleWorld []) [''srv'', ''__proto__''] = Some [''package.json'']
   \<and> basename (resolvePath exampleRuntime ''/srv/__proto__'') = ''__proto__''
   \<and> setServer defaultConfig ''__proto__''
         (JObj [(''command'', JStr ''node''),
                (''args'', JArr [JStr ''/srv/__proto__/build/index.js''] [])])
       = Inr (JObj [(''mcpServers'', JObj [])])
   \<and> fst (installServerTool exampleRuntime ''/srv/__proto__'' (Some ''/cfg/new/claude.json'')
          (exampleWorld []))
       = Inr \<lparr>isError = False,
              content = ''Successfully installed MCP server '' @ quoted ''__proto__''
                @ '' at /srv/__proto__ in Claude Desktop config at /cfg/new/claude.json''\<rparr>
   \<and> calls (snd (installServerTool exampleRuntime ''/srv/__proto__''
          (Some ''/cfg/new/claude.json'') (exampleWorld [])))
       = [Mkdir [''cfg'', ''new''], Mkdir [''cfg'', ''new''],
          WriteFile [''cfg'', ''new'', ''claude.json''] (''{'' @ quoted ''mcpServers'' @ '':{}}'')]
   \<and> fileAt (snd (installServerTool exampleRuntime ''/srv/__proto__''
          (Some ''/cfg/new/claude.json'') (exampleWorld []))) [''cfg'', ''new'', ''claude.json'']
       = Some (''{'' @ quoted ''mcpServers'' @ '':{}}'')
   \<and> fileAt (snd (installServerTool exampleRuntime ''/srv/web-tool''
          (Some ''/cfg/new/claude.json'') (exampleWorld []))) [''cfg'', ''new'', ''claude.json'']
       = Some (printJson (JObj [(''mcpServers'', JObj [(''web-tool'',
            JObj [(''command'', JStr ''node''),
                  (''args'', JArr [JStr ''/srv/web-tool/build/index.js''] [])])])]))"
  by (simp add: run_defs example_defs)

section \<open>Merging\<close>

text \<open>
  Where the document is an object whose \<^verbatim>\<open>mcpServers\<close> is an object, the assignment
  under a name other than \<^verbatim>\<open>__proto__\<close> sets the entry of the name and leaves every
  other entry and every other top-level key as it was; and making sure that
  \<^verbatim>\<open>mcpServers\<close> exists touches no other key.
\<close>

lemma registry_merge_frame:
  assumes "map_of ps ''mcpServers'' = Some (JObj ms)" and "serverName \<noteq> ''__proto__''"
  shows "\<exists>ps' ms'. setServer (JObj ps) serverName spec = Inr (JObj ps')
       \<and> map_of ps' ''mcpServers'' = Some (JObj ms')
       \<and> map_of ms' serverName = Some spec
       \<and> (\<forall>k. k \<noteq> serverName \<longrightarrow> map_of ms' k = map_of ms k)
       \<and> (\<forall>k. k \<noteq> ''mcpServers'' \<longrightarrow> map_of ps' k = map_of ps k)"
  using assms by (simp add: setServer_def map_of_setOwn)

lemma ensureMcpServers_frame:
  "\<exists>ps'. ensureMcpServers (JObj ps) = Inr (JObj ps')
       \<and> (\<forall>k. k \<noteq> ''mcpServers'' \<longrightarrow> map_of ps' k = map_of ps k)
       \<and> map_of ps' ''mcpServers'' =
           (case map_of ps ''mcpServers'' of
              None \<Rightarrow> Some (JObj [])
            | Some m \<Rightarrow> if truthy m then Some m else Some (JObj []))"
  by (simp add: ensureMcpServers_def map_of_setOwn split: option.splits)

text \<open>
  So an install into a document of that shape rewrites the file with the one entry set
  and everything else as it was read.
\<close>

lemma update_merges_into_object_registry:
  assumes cfg: "fileAt w configPath = Some c"
    and parsed: "JSON_parse rt c = Some (JObj ps)"
    and registry: "map_of ps ''mcpServers'' = Some (JObj ms)"
    and name: "serverName \<noteq> ''__proto__''"
    and run: "updateClaudeConfig rt configPath serverType serverName serverDir w = (Inr u, w')"
  shows "\<exists>command args.
           fileAt w' configPath =
             Some (JSON_stringify rt (jsonView
               (JObj (setOwn ''mcpServers''
                  (JObj (setOwn serverName
                     (JObj [(''command'', JStr command), (''args'', JArr (map JStr args) [])])
                     ms)) ps))))"
proof -
  have "ensureMcpServers (JObj ps) = Inr (JObj ps)"
    by (simp add: ensureMcpServers_def registry)
  then have rc: "readConfig rt configPath w = (Inr (JObj ps), w)"
    by (simp add: readConfig_parsed[OF cfg parsed])
  from updateClaudeConfig_success[OF run] rc obtain command args config' where
    s: "setServer (JObj ps) serverName (launchSpec command args) = Inr config'"
    and f: "fileAt w' configPath = Some (JSON_stringify rt (jsonView config'))"
    by auto
  from s have
    "config' = JObj (setOwn ''mcpServers''
                  (JObj (setOwn serverName
                     (JObj [(''command'', JStr command), (''args'', JArr (map JStr args) [])])
                     ms)) ps)"
    by (simp add: setServer_object_registry[OF registry name] launchSpec_def)
  with f show ?thesis by blast
qed

text \<open>
  C2 fails where \<^verbatim>\<open>mcpServers\<close> is an array. The document
  \<^verbatim>\<open>{"mcpServers":[]}\<close> parses, the array is truthy, the assignment sets a named
  property on it, and \<^verbatim>\<open>JSON.stringify\<close> prints an array without its named
  properties: the install reports success and the file written holds no entry.
\<close>

theorem array_registry_entry_dropped:
  "JSON_parse exampleRuntime (''{'' @ quoted ''mcpServers'' @ '':[]}'')
     = Some (JObj [(''mcpServers'', JArr [] [])])
   \<and> setServer (JObj [(''mcpServers'', JArr [] [])]) ''web-tool''
         (launchSpec ''node'' [''/srv/web-tool/build/index.js''])
     = Inr (JObj [(''mcpServers'', JArr [] [(''web-tool'',
         launchSpec ''node'' [''/srv/web-tool/build/index.js''])])])
   \<and> fst (installServerTool exampleRuntime ''/srv/web-tool'' (Some ''/cfg/claude.json'')
          (exampleWorld [(''claude.json'', File (''{'' @ quoted ''mcpServers'' @ '':[]}''))]))
     = Inr \<lparr>isError = False,
            content = ''Successfully installed MCP server '' @ quoted ''web-tool''
              @ '' at /srv/web-tool in Claude Desktop config at /cfg/claude.json''\<rparr>
   \<and> fileAt (snd (installServerTool exampleRuntime ''/srv/web-tool'' (Some ''/cfg/claude.json'')
          (exampleWorld [(''claude.json'', File (''{'' @ quoted ''mcpServers'' @ '':[]}''))])))
        [''cfg'', ''claude.json'']
     = Some (''{'' @ quoted ''mcpServers'' @ '':[]}'')"
  by (simp add: run_defs example_defs)

section \<open>Saving\<close>

text \<open>
  C3, as the code has it. \<open>writeJsonFile\<close> issues \<^verbatim>\<open>mkdir\<close> for the parent directory
  and then, if that succeeded, one \<^verbatim>\<open>writeFile\<close> of the whole text on the target path
  itself; it issues no other mutating call, so no temporary file and no rename.
\<close>

theorem save_writes_target_directly:
  "calls (snd (writeJsonFile rt filePath doc w)) =
     calls w @
       (case mkdirs (root w) (dirname filePath) of
          Inl e \<Rightarrow> [Mkdir (dirname filePath)]
        | Inr n \<Rightarrow> [Mkdir (dirname filePath),
                    WriteFile filePath (JSON_stringify rt (jsonView doc))])"
  by (simp add: writeJsonFile_run split: sum.splits)

theorem save_writes_target_directly_witness:
  "calls (snd (writeJsonFile exampleRuntime [''cfg'', ''new'', ''claude.json''] defaultConfig
       (exampleWorld []))) =
     [Mkdir [''cfg'', ''new''],
      WriteFile [''cfg'', ''new'', ''claude.json''] (printJson defaultConfig)]"
  using save_writes_target_directly[of exampleRuntime "[''cfg'', ''new'', ''claude.json'']"
      defaultConfig "exampleWorld []"]
  by (simp add: example_defs dirname_def defaultConfig_def)

text \<open>
  C3 as stated fails: saving over the existing file \<^verbatim>\<open>/cfg/claude.json\<close> writes the
  target path directly.
\<close>

theorem direct_write_counterexample:
  "fileAt (exampleWorld [(''claude.json'', File ''{}'')]) [''cfg'', ''claude.json''] = Some ''{}''
   \<and> calls (snd (writeJsonFile exampleRuntime [''cfg'', ''claude.json''] defaultConfig
       (exampleWorld [(''claude.json'', File ''{}'')]))) =
     [Mkdir [''cfg''], WriteFile [''cfg'', ''claude.json''] (printJson defaultConfig)]"
  by (simp add: run_defs example_defs)

section \<open>The launch spec\<close>

text \<open>
  For a Python project the install assigns, under the server's name, the spec
  \<^verbatim>\<open>uv --directory <dir> run server.py\<close> when \<^verbatim>\<open>server.py\<close> exists in the project
  directory, and \<^verbatim>\<open>python -m <module>\<close> otherwise, the module being the name with
  every dash replaced by an underscore. The fallback of the source
  (\<^verbatim>\<open>python <dir>/server.py\<close>) is never assigned: the assignment it would follow
  fails only where the fallback fails too.
\<close>

lemma python_launch_spec:
  "configurePython config serverName serverDir w =
     (setServer config serverName
        (if present w (joinPath serverDir [''server.py''])
         then JObj [(''command'', JStr ''uv''),
                    (''args'', JArr [JStr ''--directory'', JStr (render serverDir),
                                     JStr ''run'', JStr ''server.py''] [])]
         else JObj [(''command'', JStr ''python''),
                    (''args'', JArr [JStr ''-m'', JStr (replaceDashes serverName)] [])]), w)"
  by (simp add: configurePython_entry_file configurePython_module launchSpec_def)

text \<open>
  Into a document that is an object with an object under \<^verbatim>\<open>mcpServers\<close>, and under
  a name other than \<^verbatim>\<open>__proto__\<close>, the install of a Python project succeeds and
  writes the document with that entry set.
\<close>

lemma python_entry_registered:
  assumes cfg: "fileAt w configPath = Some c"
    and parsed: "JSON_parse rt c = Some (JObj ps)"
    and registry: "map_of ps ''mcpServers'' = Some (JObj ms)"
    and name: "serverName \<noteq> ''__proto__''"
  shows "\<exists>w'. updateClaudeConfig rt configPath Python serverName serverDir w = (Inr (), w')
       \<and> fileAt w' configPath =
           Some (JSON_stringify rt (jsonView
             (JObj (setOwn ''mcpServers''
                (JObj (setOwn serverName
                   (if present w (joinPath serverDir [''server.py''])
                    then JObj [(''command'', JStr ''uv''),
                               (''args'', JArr [JStr ''--directory'', JStr (render serverDir),
                                                JStr ''run'', JStr ''server.py''] [])]
                    else JObj [(''command'', JStr ''python''),
                               (''args'', JArr [JStr ''-m'', JStr (replaceDashes serverName)] [])])
                   ms)) ps))))"
proof -
  let ?spec = "if present w (joinPath serverDir [''server.py''])
                    then JObj [(''command'', JStr ''uv''),
                               (''args'', JArr [JStr ''--directory'', JStr (render serverDir),
                                                JStr ''run'', JStr ''server.py''] [])]
                    else JObj [(''command'', JStr ''python''),
                               (''args'', JArr [JStr ''-m'', JStr (replaceDashes serverName)] [])]"
  let ?doc = "JObj (setOwn ''mcpServers'' (JObj (setOwn serverName ?spec ms)) ps)"
  have "ensureMcpServers (JObj ps) = Inr (JObj ps)"
    by (simp add: ensureMcpServers_def registry)
  then have rc: "readConfig rt configPath w = (Inr (JObj ps), w)"
    by (simp add: readConfig_parsed[OF cfg parsed])
  have branch: "configurePython (JObj ps) serverName serverDir w = (Inr ?doc, w)"
    unfolding python_launch_spec setServer_object_registry[OF registry name] ..
  from writeJsonFile_over_file[OF cfg, of rt ?doc] obtain w' where
    wr: "writeJsonFile rt configPath ?doc w = (Inr (), w')" by blast
  have "updateClaudeConfig rt configPath Python serverName serverDir w = (Inr (), w')"
    by (simp add: updateClaudeConfig_def io_catch_run io_bind_run rc branch wr)
  with writeJsonFile_success[OF wr] show ?thesis by blast
qed

text \<open>
  A project directory given with \<^verbatim>\<open>~\<close> and a trailing separator keeps the separator
  in the text that is registered and reported; the name is still its last segment.
\<close>

lemma python_entry_keeps_trailing_separator:
  "render (resolvePath exampleRuntime ''~/py-home/'') = ''/home/u/py-home/''
   \<and> fst (installServerTool exampleRuntime ''~/py-home/'' (Some ''/cfg/claude.json'')
          (exampleWorld []))
       = Inr \<lparr>isError = False,
              content = ''Successfully installed MCP server '' @ quoted ''py-home''
                @ '' at /home/u/py-home/ in Claude Desktop config at /cfg/claude.json''\<rparr>
   \<and> fileAt (snd (installServerTool exampleRuntime ''~/py-home/'' (Some ''/cfg/claude.json'')
          (exampleWorld []))) [''cfg'', ''claude.json'']
       = Some (printJson (JObj [(''mcpServers'', JObj [(''py-home'',
            JObj [(''command'', JStr ''uv''),
                  (''args'', JArr [JStr ''--directory'', JStr ''/home/u/py-home/'',
                                   JStr ''run'', JStr ''server.py''] [])])])]))"
  by (simp add: run_defs example_defs)

text \<open>
  C9 fails where \<^verbatim>\<open>mcpServers\<close> is an array. \<^verbatim>\<open>/srv/py-tool\<close> holds
  \<^verbatim>\<open>server.py\<close> and the config file holds \<^verbatim>\<open>{"mcpServers":[]}\<close>: the install
  reports success and the file written holds no entry, neither the \<^verbatim>\<open>uv\<close> spec nor
  any other.
\<close>

theorem python_entry_dropped:
  "listing (exampleWorld [(''claude.json'', File (''{'' @ quoted ''mcpServers'' @ '':[]}''))])
       [''srv'', ''py-tool'']
     = Some [''server.py'']
   \<and> JSON_parse exampleRuntime (''{'' @ quoted ''mcpServers'' @ '':[]}'')
     = Some (JObj [(''mcpServers'', JArr [] [])])
   \<and> fst (configurePython (JObj [(''mcpServers'', JArr [] [])]) ''py-tool'' [''srv'', ''py-tool'']
          (exampleWorld [(''claude.json'', File (''{'' @ quoted ''mcpServers'' @ '':[]}''))]))
     = Inr (JObj [(''mcpServers'', JArr [] [(''py-tool'',
         JObj [(''command'', JStr ''uv''),
               (''args'', JArr [JStr ''--directory'', JStr ''/srv/py-tool'',
                                JStr ''run'', JStr ''server.py''] [])])])])
   \<and> fst (installServerTool exampleRuntime ''/srv/py-tool'' (Some ''/cfg/claude.json'')
          (exampleWorld [(''claude.json'', File (''{'' @ quoted ''mcpServers'' @ '':[]}''))]))
     = Inr \<lparr>isError = False,
            content = ''Successfully installed MCP server '' @ quoted ''py-tool''
              @ '' at /srv/py-tool in Claude Desktop config at /cfg/claude.json''\<rparr>
   \<and> fileAt (snd (installServerTool exampleRuntime ''/srv/py-tool'' (Some ''/cfg/claude.json'')
          (exampleWorld [(''claude.json'', File (''{'' @ quoted ''mcpServers'' @ '':[]}''))])))
        [''cfg'', ''claude.json'']
     = Some (''{'' @ quoted ''mcpServers'' @ '':[]}'')"
  by (simp add: run_defs example_defs)

text \<open>
  C4, as the code has it. For a Java project the install looks at \<^verbatim>\<open>target\<close> first
  and at \<^verbatim>\<open>build/libs\<close> only when \<^verbatim>\<open>target\<close> does not exist. In \<^verbatim>\<open>target\<close> it
  takes the first entry ending in \<^verbatim>\<open>-jar-with-dependencies.jar\<close> and, failing that,
  the first ending in \<^verbatim>\<open>.jar\<close>; in \<^verbatim>\<open>build/libs\<close> it takes the first entry ending
  in \<^verbatim>\<open>.jar\<close>, with no preference. A scanned directory without a jar gives the error
  "No jar file found in" that directory, and no output directory at all gives "No Maven
  or Gradle build artifacts found"; an output directory that is not a directory fails
  in \<^verbatim>\<open>readdir\<close>. The entry assigned is \<^verbatim>\<open>java -jar <dir>/<jar>\<close>.
  In particular the directory \<^verbatim>\<open>/srv/my-server\<close>, which holds only \<^verbatim>\<open>pom.xml\<close> and
  \<^verbatim>\<open>target/my-server-1.0.0-jar-with-dependencies.jar\<close>, installs with that jar in
  its entry.
\<close>

theorem java_artifact_location:
  "(listing w (joinPath serverDir [''target'']) = Some files \<longrightarrow>
      configureJava config serverName serverDir w =
        (case (case find (\<lambda>file. endsWith file ''-jar-with-dependencies.jar'') files of
                 Some f \<Rightarrow> Some f
               | None \<Rightarrow> find (\<lambda>file. endsWith file ''.jar'') files) of
           None \<Rightarrow> Inl (Error (''No jar file found in ''
                                 @ render (joinPath serverDir [''target''])))
         | Some jarFile \<Rightarrow>
             setServer config serverName
               (JObj [(''command'', JStr ''java''),
                      (''args'', JArr [JStr ''-jar'',
                         JStr (render (joinPath serverDir [''target'', jarFile]))] [])]), w))
   \<and> (\<not> present w (joinPath serverDir [''target'']) \<longrightarrow>
        listing w (joinPath serverDir [''build'', ''libs'']) = Some files \<longrightarrow>
        configureJava config serverName serverDir w =
          (case find (\<lambda>file. endsWith file ''.jar'') files of
             None \<Rightarrow> Inl (Error (''No jar file found in ''
                                   @ render (joinPath serverDir [''build'', ''libs''])))
           | Some jarFile \<Rightarrow>
               setServer config serverName
                 (JObj [(''command'', JStr ''java''),
                        (''args'', JArr [JStr ''-jar'',
                           JStr (render (joinPath serverDir [''build'', ''libs'', jarFile]))] [])]),
           w))
   \<and> (\<not> present w (joinPath serverDir [''target'']) \<longrightarrow>
        \<not> present w (joinPath serverDir [''build'', ''libs'']) \<longrightarrow>
        configureJava config serverName serverDir w =
          (Inl (Error (''No Maven or Gradle build artifacts found in '' @ render serverDir)), w))
   \<and> (present w (joinPath serverDir [''target'']) \<longrightarrow>
        listing w (joinPath serverDir [''target'']) = None \<longrightarrow>
        configureJava config serverName serverDir w =
          (Inl (SystemError ENOTDIR ''scandir'' (joinPath serverDir [''target''])), w))
   \<and> (\<not> present w (joinPath serverDir [''target'']) \<longrightarrow>
        present w (joinPath serverDir [''build'', ''libs'']) \<longrightarrow>
        listing w (joinPath serverDir [''build'', ''libs'']) = None \<longrightarrow>
        configureJava config serverName serverDir w =
          (Inl (SystemError ENOTDIR ''scandir'' (joinPath serverDir [''build'', ''libs''])), w))
   \<and> listing (exampleWorld []) [''srv'', ''my-server''] = Some [''pom.xml'', ''target'']
   \<and> listing (exampleWorld []) [''srv'', ''my-server'', ''target'']
       = Some [''my-server-1.0.0-jar-with-dependencies.jar'']
   \<and> fileAt (snd (installServerTool exampleRuntime ''/srv/my-server''
              (Some ''/cfg/claude.json'') (exampleWorld []))) [''cfg'', ''claude.json'']
       = Some (printJson (JObj [(''mcpServers'', JObj [(''my-server'',
            JObj [(''command'', JStr ''java''),
                  (''args'', JArr [JStr ''-jar'',
                     JStr ''/srv/my-server/target/my-server-1.0.0-jar-with-dependencies.jar'']
                     [])])])]))"
proof -
  have a: "listing w (joinPath serverDir [''target'']) = Some files \<longrightarrow>
      configureJava config serverName serverDir w =
        (case (case find (\<lambda>file. endsWith file ''-jar-with-dependencies.jar'') files of
                 Some f \<Rightarrow> Some f
               | None \<Rightarrow> find (\<lambda>file. endsWith file ''.jar'') files) of
           None \<Rightarrow> Inl (Error (''No jar file found in ''
                                 @ render (joinPath serverDir [''target''])))
         | Some jarFile \<Rightarrow>
             setServer config serverName
               (JObj [(''command'', JStr ''java''),
                      (''args'', JArr [JStr ''-jar'',
                         JStr (render (joinPath serverDir [''target'', jarFile]))] [])]), w)"
    by (auto simp: configureJava_def io_bind_run fileExists_run io_simps listing_present
        fs_readdir_listing launchSpec_def split: option.splits)
  have b: "\<not> present w (joinPath serverDir [''target'']) \<longrightarrow>
        listing w (joinPath serverDir [''build'', ''libs'']) = Some files \<longrightarrow>
        configureJava config serverName serverDir w =
          (case find (\<lambda>file. endsWith file ''.jar'') files of
             None \<Rightarrow> Inl (Error (''No jar file found in ''
                                   @ render (joinPath serverDir [''build'', ''libs''])))
           | Some jarFile \<Rightarrow>
               setServer config serverName
                 (JObj [(''command'', JStr ''java''),
                        (''args'', JArr [JStr ''-jar'',
                           JStr (render (joinPath serverDir [''build'', ''libs'', jarFile]))] [])]),
           w)"
    by (auto simp: configureJava_def io_bind_run fileExists_run io_simps listing_present
        fs_readdir_listing launchSpec_def split: option.splits)
  have c: "\<not> present w (joinPath serverDir [''target'']) \<longrightarrow>
        \<not> present w (joinPath serverDir [''build'', ''libs'']) \<longrightarrow>
        configureJava config serverName serverDir w =
          (Inl (Error (''No Maven or Gradle build artifacts found in '' @ render serverDir)), w)"
    by (simp add: configureJava_def io_bind_run fileExists_run io_simps)
  have readdir: "fs_readdir p w = (Inl (SystemError ENOTDIR ''scandir'' p), w)"
    if "present w p" "listing w p = None" for p
    using that
    by (auto simp: fs_readdir_def listing_def present_def split: sum.splits node.splits)
  have g: "present w (joinPath serverDir [''target'']) \<longrightarrow>
        listing w (joinPath serverDir [''target'']) = None \<longrightarrow>
        configureJava config serverName serverDir w =
          (Inl (SystemError ENOTDIR ''scandir'' (joinPath serverDir [''target''])), w)"
    by (simp add: configureJava_def io_bind_run fileExists_run io_simps readdir)
  have h: "\<not> present w (joinPath serverDir [''target'']) \<longrightarrow>
        present w (joinPath serverDir [''build'', ''libs'']) \<longrightarrow>
        listing w (joinPath serverDir [''build'', ''libs'']) = None \<longrightarrow>
        configureJava config serverName serverDir w =
          (Inl (SystemError ENOTDIR ''scandir'' (joinPath serverDir [''build'', ''libs''])), w)"
    by (simp add: configureJava_def io_bind_run fileExists_run io_simps readdir)
  have d: "listing (exampleWorld []) [''srv'', ''my-server''] = Some [''pom.xml'', ''target'']"
    by (simp add: example_defs)
  have e: "listing (exampleWorld []) [''srv'', ''my-server'', ''target'']
       = Some [''my-server-1.0.0-jar-with-dependencies.jar'']"
    by (simp add: example_defs)
  have f: "fileAt (snd (installServerTool exampleRuntime ''/srv/my-server''
              (Some ''/cfg/claude.json'') (exampleWorld []))) [''cfg'', ''claude.json'']
       = Some (printJson (JObj [(''mcpServers'', JObj [(''my-server'',
            JObj [(''command'', JStr ''java''),
                  (''args'', JArr [JStr ''-jar'',
                     JStr ''/srv/my-server/target/my-server-1.0.0-jar-with-dependencies.jar'']
                     [])])])]))"
    by (simp add: run_defs example_defs)
  from a b c g h d e f show ?thesis by simp
qed

theorem java_artifact_location_witness:
  "listing (exampleWorld [])
       (joinPath [''srv'', ''gradle-app''] [''build'', ''libs''])
     = Some [''app.jar'', ''fat-jar-with-dependencies.jar'']
   \<and> \<not> present (exampleWorld []) (joinPath [''srv'', ''gradle-app''] [''target''])
   \<and> configureJava defaultConfig ''gradle-app'' [''srv'', ''gradle-app''] (exampleWorld []) =
       (Inr (JObj [(''mcpServers'', JObj [(''gradle-app'',
          JObj [(''command'', JStr ''java''),
                (''args'', JArr [JStr ''-jar'', JStr ''/srv/gradle-app/build/libs/app.jar'']
                   [])])])]),
        exampleWorld [])
   \<and> \<not> present (exampleWorld []) (joinPath [''srv'', ''web-tool''] [''build'', ''libs''])
   \<and> configureJava defaultConfig ''web-tool'' [''srv'', ''web-tool''] (exampleWorld []) =
       (Inl (Error ''No Maven or Gradle build artifacts found in /srv/web-tool''),
        exampleWorld [])
   \<and> listing (exampleWorld []) (joinPath [''srv'', ''my-server''] [''target''])
     = Some [''my-server-1.0.0-jar-with-dependencies.jar'']
   \<and> configureJava defaultConfig ''my-server'' [''srv'', ''my-server''] (exampleWorld []) =
       (Inr (JObj [(''mcpServers'', JObj [(''my-server'',
          JObj [(''command'', JStr ''java''),
                (''args'', JArr [JStr ''-jar'',
                   JStr ''/srv/my-server/target/my-server-1.0.0-jar-with-dependencies.jar'']
                   [])])])]),
        exampleWorld [])
   \<and> fileAt (exampleWorld [(''target'', File [])]) (joinPath [''cfg''] [''target'']) = Some []
   \<and> configureJava defaultConfig ''cfg'' [''cfg''] (exampleWorld [(''target'', File [])]) =
       (Inl (SystemError ENOTDIR ''scandir'' [''cfg'', ''target'']),
        exampleWorld [(''target'', File [])])
   \<and> fileAt (exampleWorld [(''build'', Dir [(''libs'', File [])])])
         (joinPath [''cfg''] [''build'', ''libs'']) = Some []
   \<and> configureJava defaultConfig ''cfg'' [''cfg'']
         (exampleWorld [(''build'', Dir [(''libs'', File [])])]) =
       (Inl (SystemError ENOTDIR ''scandir'' [''cfg'', ''build'', ''libs'']),
        exampleWorld [(''build'', Dir [(''libs'', File [])])])"
proof -
  have l: "listing (exampleWorld []) (joinPath [''srv'', ''my-server''] [''target''])
     = Some [''my-server-1.0.0-jar-with-dependencies.jar'']"
    by (simp add: example_defs)
  have g: "listing (exampleWorld [])
       (joinPath [''srv'', ''gradle-app''] [''build'', ''libs''])
     = Some [''app.jar'', ''fat-jar-with-dependencies.jar'']"
    by (simp add: example_defs)
  have t: "\<not> present (exampleWorld []) (joinPath [''srv'', ''gradle-app''] [''target''])"
    by (simp add: example_defs)
  have n: "\<not> present (exampleWorld []) (joinPath [''srv'', ''web-tool''] [''target''])"
    by (simp add: example_defs)
  have m: "\<not> present (exampleWorld []) (joinPath [''srv'', ''web-tool''] [''build'', ''libs''])"
    by (simp add: example_defs)
  have x: "fileAt (exampleWorld [(''target'', File [])]) (joinPath [''cfg''] [''target''])
        = Some []"
      "present (exampleWorld [(''target'', File [])]) (joinPath [''cfg''] [''target''])"
      "listing (exampleWorld [(''target'', File [])]) (joinPath [''cfg''] [''target'']) = None"
    by (simp_all add: example_defs)
  have y: "fileAt (exampleWorld [(''build'', Dir [(''libs'', File [])])])
         (joinPath [''cfg''] [''build'', ''libs'']) = Some []"
      "\<not> present (exampleWorld [(''build'', Dir [(''libs'', File [])])])
         (joinPath [''cfg''] [''target''])"
      "present (exampleWorld [(''build'', Dir [(''libs'', File [])])])
         (joinPath [''cfg''] [''build'', ''libs''])"
      "listing (exampleWorld [(''build'', Dir [(''libs'', File [])])])
         (joinPath [''cfg''] [''build'', ''libs'']) = None"
    by (simp_all add: example_defs)
  show ?thesis
    using java_artifact_location[of "exampleWorld []" "[''srv'', ''my-server'']"
        "[''my-server-1.0.0-jar-with-dependencies.jar'']" defaultConfig "''my-server''"]
      java_artifact_location[of "exampleWorld []" "[''srv'', ''gradle-app'']"
        "[''app.jar'', ''fat-jar-with-dependencies.jar'']" defaultConfig "''gradle-app''"]
      java_artifact_location[of "exampleWorld []" "[''srv'', ''web-tool'']" "[]" defaultConfig
        "''web-tool''"]
      java_artifact_location[of "exampleWorld [(''target'', File [])]" "[''cfg'']" "[]"
        defaultConfig "''cfg''"]
      java_artifact_location[of "exampleWorld [(''build'', Dir [(''libs'', File [])])]"
        "[''cfg'']" "[]" defaultConfig "''cfg''"]
      l g t n m x y
    by (simp add: endsWith_def setServer_default render_def joinPath_def segments_def)
qed

text \<open>
  C4 as stated fails for the Gradle directory: \<^verbatim>\<open>readdir\<close> reports
  \<^verbatim>\<open>/srv/gradle-app/build/libs\<close> as \<^verbatim>\<open>app.jar\<close>, \<^verbatim>\<open>fat-jar-with-dependencies.jar\<close>
  (byte order), and the bare jar is the one the install registers.
\<close>

theorem gradle_no_preference_counterexample:
  "nameLess ''app.jar'' ''fat-jar-with-dependencies.jar''
   \<and> listing (exampleWorld []) [''srv'', ''gradle-app'', ''build'', ''libs'']
     = Some [''app.jar'', ''fat-jar-with-dependencies.jar'']
   \<and> \<not> present (exampleWorld []) [''srv'', ''gradle-app'', ''target'']
   \<and> fst (installServerTool exampleRuntime ''/srv/gradle-app'' (Some ''/cfg/claude.json'')
          (exampleWorld []))
     = Inr \<lparr>isError = False,
            content = ''Successfully installed MCP server '' @ quoted ''gradle-app''
              @ '' at /srv/gradle-app in Claude Desktop config at /cfg/claude.json''\<rparr>
   \<and> fileAt (snd (installServerTool exampleRuntime ''/srv/gradle-app''
              (Some ''/cfg/claude.json'') (exampleWorld []))) [''cfg'', ''claude.json'']
       = Some (printJson (JObj [(''mcpServers'', JObj [(''gradle-app'',
            JObj [(''command'', JStr ''java''),
                  (''args'', JArr [JStr ''-jar'', JStr ''/srv/gradle-app/build/libs/app.jar'']
                     [])])])]))"
  by (simp add: run_defs example_defs)

text \<open>
  The single-file implementation has no preference in either directory: in \<^verbatim>\<open>target\<close>
  too it takes the first entry ending in \<^verbatim>\<open>.jar\<close>.
\<close>

lemma index_java_takes_first_jar:
  assumes "listing w (joinPath serverDir [''target'']) = Some files"
  shows "updateClaudeConfig_index rt configPath Java serverDir w =
     io_bind (readConfig_index rt configPath) (\<lambda>config.
       io_bind
         (case find (\<lambda>file. endsWith file ''.jar'') files of
            None \<Rightarrow> io_throw (Error ''No jar file found in build directory'')
          | Some jarFile \<Rightarrow>
              io_lift (setServer config (basename serverDir)
                (launchSpec ''java''
                   [''-jar'', render (joinPath (joinPath serverDir [''target'']) [jarFile])])))
         (\<lambda>config'. fs_writeFile configPath (JSON_stringify rt (jsonView config')))) w"
proof -
  have ro: "snd (readConfig_index rt configPath w) = w"
    by (auto simp: readConfig_index_def io_catch_run io_bind_run fs_readFile_def io_simps
        split: sum.splits node.splits option.splits prod.splits)
  obtain r where r: "readConfig_index rt configPath w = (r, w)"
    using ro by (cases "readConfig_index rt configPath w") simp
  show ?thesis
    by (cases r)
       (simp_all add: updateClaudeConfig_index_def io_bind_run r Let_def fileExists_run
         listing_present[OF assms] fs_readdir_listing[OF assms] io_simps
         split: option.splits)
qed

section \<open>The name of the entry\<close>

text \<open>
  The install tool has no parameter for the name: the handler passes the last segment of
  the resolved project directory. Into a document that is an object with an object
  under \<^verbatim>\<open>mcpServers\<close>, and when that segment is not \<^verbatim>\<open>__proto__\<close>, every install
  that reports success has written the document with a launch spec set under that
  segment and nothing else changed.
\<close>

lemma determineServerType_world: "snd (determineServerType rt directory w) = w"
  by (auto simp: determineServerType_def io_catch_run io_bind_run fs_readdir_def fileExists_run
      io_simps split: sum.splits node.splits)

lemma install_registers_under_basename:
  assumes run: "installServerTool rt directory configPath w = (Inr r, w')"
    and ok: "\<not> isError r"
    and path: "claudeConfigPath =
        (case configPath of
           None \<Rightarrow> getDefaultClaudeConfigPath rt
         | Some c \<Rightarrow> if c = [] then getDefaultClaudeConfigPath rt else resolvePath rt c)"
    and cfg: "fileAt w claudeConfigPath = Some c"
    and parsed: "JSON_parse rt c = Some (JObj ps)"
    and registry: "map_of ps ''mcpServers'' = Some (JObj ms)"
    and name: "basename (resolvePath rt directory) \<noteq> ''__proto__''"
  shows "\<exists>command args.
           fileAt w' claudeConfigPath =
             Some (JSON_stringify rt (jsonView
               (JObj (setOwn ''mcpServers''
                  (JObj (setOwn (basename (resolvePath rt directory))
                     (JObj [(''command'', JStr command), (''args'', JArr (map JStr args) [])])
                     ms)) ps))))"
proof -
  let ?dir = "resolvePath rt directory"
  obtain t where t: "determineServerType rt ?dir w = (t, w)"
    using determineServerType_world[of rt ?dir w]
    by (cases "determineServerType rt ?dir w") simp
  from run ok t have p: "present w ?dir"
    by (auto simp: installServerTool_def Let_def io_catch_run io_bind_run fileExists_run io_simps
        split: if_splits)
  from run ok t p obtain ty where ty: "t = Inr ty"
    by (cases t)
       (auto simp: installServerTool_def Let_def io_catch_run io_bind_run fileExists_run io_simps)
  obtain x w2 where x: "updateClaudeConfig rt claudeConfigPath ty (basename ?dir) ?dir w = (x, w2)"
    by (cases "updateClaudeConfig rt claudeConfigPath ty (basename ?dir) ?dir w")
  from run ok t p ty x have "x = Inr () \<and> w2 = w'"
    unfolding path
    by (cases x)
       (auto simp: installServerTool_def Let_def io_catch_run io_bind_run fileExists_run io_simps)
  with x have "updateClaudeConfig rt claudeConfigPath ty (basename ?dir) ?dir w = (Inr (), w')"
    by simp
  from update_merges_into_object_registry[OF cfg parsed registry name this]
  show ?thesis .
qed

text \<open>
  C10 fails where the document is an array. The config file holds \<^verbatim>\<open>[]\<close>;
  installing \<^verbatim>\<open>/srv/my-server\<close> sets \<^verbatim>\<open>mcpServers\<close> as a named property of the
  array and the entry inside it, reports success, and writes \<^verbatim>\<open>[]\<close>: the document
  holds no key \<^verbatim>\<open>my-server\<close> and no \<^verbatim>\<open>mcpServers\<close> at all. The single-file
  implementation does the same.
\<close>

theorem array_document_registers_no_key:
  "JSON_parse exampleRuntime ''[]'' = Some (JArr [] [])
   \<and> basename (resolvePath exampleRuntime ''/srv/my-server'') = ''my-server''
   \<and> fst (configureJava (JArr [] [(''mcpServers'', JObj [])]) ''my-server''
          [''srv'', ''my-server''] (exampleWorld [(''claude.json'', File ''[]'')]))
     = Inr (JArr [] [(''mcpServers'', JObj [(''my-server'',
         JObj [(''command'', JStr ''java''),
               (''args'', JArr [JStr ''-jar'',
                  JStr ''/srv/my-server/target/my-server-1.0.0-jar-with-dependencies.jar'']
                  [])])])])
   \<and> fst (installServerTool exampleRuntime ''/srv/my-server'' (Some ''/cfg/claude.json'')
          (exampleWorld [(''claude.json'', File ''[]'')]))
     = Inr \<lparr>isError = False,
            content = ''Successfully installed MCP server '' @ quoted ''my-server''
              @ '' at /srv/my-server in Claude Desktop config at /cfg/claude.json''\<rparr>
   \<and> fileAt (snd (installServerTool exampleRuntime ''/srv/my-server'' (Some ''/cfg/claude.json'')
          (exampleWorld [(''claude.json'', File ''[]'')]))) [''cfg'', ''claude.json'']
     = Some ''[]''
   \<and> updateClaudeConfig_index exampleRuntime [''cfg'', ''claude.json''] Java
          [''srv'', ''my-server''] (exampleWorld [(''claude.json'', File ''[]'')])
     = (Inr (),
        \<lparr>entries = entries (exampleWorld [(''claude.json'', File ''[]'')]),
         calls = [WriteFile [''cfg'', ''claude.json''] ''[]'']\<rparr>)"
  by (simp add: run_defs example_defs updateClaudeConfig_index_def readConfig_index_def)

section \<open>The handlers\<close>

text \<open>
  C5, as the code has it. Each of the three handlers returns a result in every world
  and for every input, and throws nothing. The result is either the confirmation text
  with \<^verbatim>\<open>isError\<close> unset, or \<^verbatim>\<open>isError\<close> with a text: the handler's own complaint
  about the directory or the project, or, for any error thrown by the steps inside its
  \<^verbatim>\<open>try\<close> block, "Failed to create server: ", "Failed to build server: " or
  "Failed to install server: " followed by the message of that error. A failure carries
  no kind beside the flag and the text.
\<close>

theorem handlers_convert_every_failure:
  "installServerTool rt directory configPath w =
     (let fullPath = resolvePath rt directory;
          claudeConfigPath =
            (case configPath of
               None \<Rightarrow> getDefaultClaudeConfigPath rt
             | Some c \<Rightarrow> if c = [] then getDefaultClaudeConfigPath rt else resolvePath rt c)
      in if \<not> present w fullPath
         then (Inr \<lparr>isError = True,
                 content = ''Error: Directory '' @ render fullPath @ '' does not exist.''\<rparr>, w)
         else case determineServerType rt fullPath w of
                (Inl error, w1) \<Rightarrow>
                  (Inr \<lparr>isError = True,
                     content = ''Failed to install server: '' @ message rt error\<rparr>, w1)
              | (Inr serverType, w1) \<Rightarrow>
                  (case updateClaudeConfig rt claudeConfigPath serverType (basename fullPath)
                          fullPath w1 of
                     (Inl error, w2) \<Rightarrow>
                       (Inr \<lparr>isError = True,
                          content = ''Failed to install server: '' @ message rt error\<rparr>, w2)
                   | (Inr u, w2) \<Rightarrow>
                       (Inr \<lparr>isError = False,
                          content = ''Successfully installed MCP server '' @ [CHR 0x22]
                            @ basename fullPath @ [CHR 0x22] @ '' at '' @ render fullPath
                            @ '' in Claude Desktop config at '' @ render claudeConfigPath\<rparr>,
                        w2)))
   \<and> buildServerTool rt directory w =
     (let fullPath = resolvePath rt directory
      in if \<not> present w fullPath
         then (Inr \<lparr>isError = True,
                 content = ''Error: Directory '' @ render fullPath @ '' does not exist.''\<rparr>, w)
         else case listing w fullPath of
                None \<Rightarrow>
                  (Inr \<lparr>isError = True,
                     content = ''Failed to build server: ''
                       @ message rt (SystemError ENOTDIR ''scandir'' fullPath)\<rparr>, w)
              | Some files \<Rightarrow>
                  if ''package.json'' \<in> set files
                  then (case buildTypeScriptProject rt fullPath w of
                          (Inl error, w1) \<Rightarrow>
                            (Inr \<lparr>isError = True,
                               content = ''Failed to build server: '' @ message rt error\<rparr>, w1)
                        | (Inr u, w1) \<Rightarrow>
                            (Inr \<lparr>isError = False,
                               content = ''Successfully built TypeScript MCP server at ''
                                 @ render fullPath\<rparr>, w1))
                  else if ''requirements.txt'' \<in> set files \<or> ''pyproject.toml'' \<in> set files
                          \<or> ''server.py'' \<in> set files
                  then (case buildPythonProject rt fullPath w of
                          (Inl error, w1) \<Rightarrow>
                            (Inr \<lparr>isError = True,
                               content = ''Failed to build server: '' @ message rt error\<rparr>, w1)
                        | (Inr u, w1) \<Rightarrow>
                            (Inr \<lparr>isError = False,
                               content = ''Successfully built Python MCP server at ''
                                 @ render fullPath\<rparr>, w1))
                  else if ''pom.xml'' \<in> set files \<or> ''build.gradle'' \<in> set files
                  then (case buildJavaProject rt fullPath w of
                          (Inl error, w1) \<Rightarrow>
                            (Inr \<lparr>isError = True,
                               content = ''Failed to build server: '' @ message rt error\<rparr>, w1)
                        | (Inr u, w1) \<Rightarrow>
                            (Inr \<lparr>isError = False,
                               content = ''Successfully built Java MCP server at ''
                                 @ render fullPath\<rparr>, w1))
                  else (Inr \<lparr>isError = True,
                          content = ''Unable to determine project type in '' @ render fullPath
                            @ ''. Make sure it's a valid MCP server project.''\<rparr>, w))
   \<and> createServerTool rt tp name lang directory w =
     (let fullPath = path_join rt (resolvePath rt directory) name
      in if present w fullPath
         then (Inr \<lparr>isError = True,
                 content = ''Error: Directory '' @ render fullPath
                   @ '' already exists. Please choose a different name or directory.''\<rparr>, w)
         else case ensureDir rt fullPath w of
                (Inl error, w1) \<Rightarrow>
                  (Inr \<lparr>isError = True,
                     content = ''Failed to create server: '' @ message rt error\<rparr>, w1)
              | (Inr u, w1) \<Rightarrow>
                  (case (case lang of
                           LangTypescript \<Rightarrow> createTypeScriptProject rt tp name fullPath
                         | LangPython \<Rightarrow> createPythonProject rt tp name fullPath
                         | LangJava \<Rightarrow> createJavaProject rt tp name fullPath) w1 of
                     (Inl error, w2) \<Rightarrow>
                       (Inr \<lparr>isError = True,
                          content = ''Failed to create server: '' @ message rt error\<rparr>, w2)
                   | (Inr u', w2) \<Rightarrow>
                       (Inr \<lparr>isError = False,
                          content = ''Successfully created '' @ languageName lang
                            @ '' MCP server project '' @ [CHR 0x22] @ name @ [CHR 0x22]
                            @ '' at '' @ render fullPath\<rparr>, w2)))"
proof (intro conjI, goal_cases)
  case 1
  let ?fullPath = "resolvePath rt directory"
  let ?claudeConfigPath = "case configPath of
               None \<Rightarrow> getDefaultClaudeConfigPath rt
             | Some c \<Rightarrow> if c = [] then getDefaultClaudeConfigPath rt else resolvePath rt c"
  obtain t w1 where t: "determineServerType rt ?fullPath w = (t, w1)"
    by (cases "determineServerType rt ?fullPath w")
  show ?case
  proof (cases t)
    case (Inl error)
    with t show ?thesis
      by (simp add: installServerTool_def Let_def io_catch_run io_bind_run fileExists_run io_simps)
  next
    case (Inr serverType)
    obtain x w2 where
      x: "updateClaudeConfig rt ?claudeConfigPath serverType (basename ?fullPath) ?fullPath w1
            = (x, w2)"
      by (cases "updateClaudeConfig rt ?claudeConfigPath serverType (basename ?fullPath)
            ?fullPath w1")
    with t Inr show ?thesis
      by (cases x)
         (simp_all add: installServerTool_def Let_def io_catch_run io_bind_run fileExists_run
           io_simps)
  qed
next
  case 2
  let ?fullPath = "resolvePath rt directory"
  obtain a w1 where a: "buildTypeScriptProject rt ?fullPath w = (a, w1)"
    by (cases "buildTypeScriptProject rt ?fullPath w")
  obtain b w2 where b: "buildPythonProject rt ?fullPath w = (b, w2)"
    by (cases "buildPythonProject rt ?fullPath w")
  obtain c w3 where c: "buildJavaProject rt ?fullPath w = (c, w3)"
    by (cases "buildJavaProject rt ?fullPath w")
  show ?case
  proof (cases "listing w ?fullPath")
    case None
    then show ?thesis
      by (cases "present w ?fullPath")
         (auto simp: buildServerTool_def Let_def io_catch_run io_bind_run fileExists_run io_simps
           fs_readdir_def listing_def present_def split: sum.splits node.splits)
  next
    case (Some files)
    note ls = fs_readdir_listing[OF Some] listing_present[OF Some]
    show ?thesis
      by (cases a; cases b; cases c)
         (simp_all add: buildServerTool_def Let_def io_catch_run io_bind_run fileExists_run
           io_simps Some ls a b c)
  qed
next
  case 3
  let ?fullPath = "path_join rt (resolvePath rt directory) name"
  let ?scaffold = "case lang of
                           LangTypescript \<Rightarrow> createTypeScriptProject rt tp name ?fullPath
                         | LangPython \<Rightarrow> createPythonProject rt tp name ?fullPath
                         | LangJava \<Rightarrow> createJavaProject rt tp name ?fullPath"
  obtain d w1 where d: "ensureDir rt ?fullPath w = (d, w1)"
    by (cases "ensureDir rt ?fullPath w")
  show ?case
  proof (cases d)
    case (Inl error)
    with d show ?thesis
      by (simp add: createServerTool_def Let_def io_catch_run io_bind_run fileExists_run io_simps)
  next
    case (Inr u)
    obtain x w2 where x: "?scaffold w1 = (x, w2)"
      by (cases "?scaffold w1")
    with d Inr show ?thesis
      by (cases x)
         (simp_all add: createServerTool_def Let_def io_catch_run io_bind_run fileExists_run
           io_simps)
  qed
qed

theorem handlers_convert_every_failure_witness:
  "fst (installServerTool exampleRuntime ''/srv/empty'' (Some ''/cfg/claude.json'')
      (exampleWorld []))
     = Inr \<lparr>isError = True,
            content = ''Failed to install server: Failed to determine server type: ''
              @ ''Unable to determine server type in directory: /srv/empty''\<rparr>
   \<and> fst (buildServerTool exampleRuntime ''/srv/scripts/pom.xml'' (exampleWorld []))
     = Inr \<lparr>isError = True,
            content = ''Failed to build server: ENOTDIR: not a directory, scandir ''
              @ [CHR 0x27] @ ''/srv/scripts/pom.xml'' @ [CHR 0x27]\<rparr>
   \<and> fst (buildServerTool exampleRuntime ''/srv/web-tool'' (exampleWorld []))
     = Inr \<lparr>isError = False,
            content = ''Successfully built TypeScript MCP server at /srv/web-tool''\<rparr>
   \<and> fst (createServerTool exampleRuntime exampleTemplates ''web-tool'' LangTypescript ''/srv''
        (exampleWorld []))
     = Inr \<lparr>isError = True,
            content = ''Error: Directory /srv/web-tool already exists. ''
              @ ''Please choose a different name or directory.''\<rparr>
   \<and> fst (createServerTool exampleRuntime exampleTemplates ''new-tool'' LangTypescript ''/srv''
        (exampleWorld []))
     = Inr \<lparr>isError = True,
            content = ''Failed to create server: Failed to create TypeScript project: ''
              @ ''ENOENT: no such file or directory, open ''
              @ [CHR 0x27] @ ''/srv/new-tool/package.json'' @ [CHR 0x27]\<rparr>"
proof -
  have a: "determineServerType exampleRuntime [''srv'', ''empty''] (exampleWorld []) =
       (Inl (Error (''Failed to determine server type: ''
          @ ''Unable to determine server type in directory: /srv/empty'')), exampleWorld [])"
    by (simp add: run_defs example_defs)
  have b: "listing (exampleWorld []) [''srv'', ''scripts'', ''pom.xml''] = None"
    by (simp add: example_defs)
  have c: "fst (buildTypeScriptProject exampleRuntime [''srv'', ''web-tool''] (exampleWorld []))
      = Inr ()"
    by (simp add: buildTypeScriptProject_def executeCommand_def io_discard_def run_defs
        example_defs trim_def)
  have d: "fst (createTypeScriptProject exampleRuntime exampleTemplates ''new-tool''
        [''srv'', ''new-tool'']
        (snd (ensureDir exampleRuntime [''srv'', ''new-tool''] (exampleWorld []))))
      = Inl (Error (''Failed to create TypeScript project: ''
              @ ''ENOENT: no such file or directory, open ''
              @ [CHR 0x27] @ ''/srv/new-tool/package.json'' @ [CHR 0x27]))"
    by (simp add: createTypeScriptProject_def ensureDir_def executeCommand_def run_defs
        example_defs trim_def exampleTemplates_def)
  have e: "fst (ensureDir exampleRuntime [''srv'', ''new-tool''] (exampleWorld [])) = Inr ()"
    by (simp add: ensureDir_def run_defs example_defs)
  have p: "present (exampleWorld []) [''srv'', ''empty'']"
      "present (exampleWorld []) [''srv'', ''scripts'', ''pom.xml'']"
      "present (exampleWorld []) [''srv'', ''web-tool'']"
      "\<not> present (exampleWorld []) [''srv'', ''new-tool'']"
      "listing (exampleWorld []) [''srv'', ''web-tool''] = Some [''package.json'']"
    by (simp_all add: example_defs)
  have r: "resolvePath exampleRuntime ''/srv/empty'' = [''srv'', ''empty'']"
      "resolvePath exampleRuntime ''/srv/scripts/pom.xml'' = [''srv'', ''scripts'', ''pom.xml'']"
      "resolvePath exampleRuntime ''/srv/web-tool'' = [''srv'', ''web-tool'']"
      "path_join exampleRuntime (resolvePath exampleRuntime ''/srv'') ''web-tool''
         = [''srv'', ''web-tool'']"
      "path_join exampleRuntime (resolvePath exampleRuntime ''/srv'') ''new-tool''
         = [''srv'', ''new-tool'']"
      "nodeMessage exampleRuntime = exampleNodeMessage"
    by (simp_all add: resolvePath_def exampleRuntime_def segments_def)
  have "fst (installServerTool exampleRuntime ''/srv/empty'' (Some ''/cfg/claude.json'')
      (exampleWorld []))
     = Inr \<lparr>isError = True,
            content = ''Failed to install server: Failed to determine server type: ''
              @ ''Unable to determine server type in directory: /srv/empty''\<rparr>"
    using handlers_convert_every_failure[of exampleRuntime "''/srv/empty''"
        "Some ''/cfg/claude.json''" "exampleWorld []"]
    by (simp add: r p a)
  moreover have "fst (buildServerTool exampleRuntime ''/srv/scripts/pom.xml'' (exampleWorld []))
     = Inr \<lparr>isError = True,
            content = ''Failed to build server: ENOTDIR: not a directory, scandir ''
              @ [CHR 0x27] @ ''/srv/scripts/pom.xml'' @ [CHR 0x27]\<rparr>"
    using handlers_convert_every_failure[of exampleRuntime "''/srv/scripts/pom.xml''" _
        "exampleWorld []"]
    by (simp add: r p b render_def)
  moreover have "fst (buildServerTool exampleRuntime ''/srv/web-tool'' (exampleWorld []))
     = Inr \<lparr>isError = False,
            content = ''Successfully built TypeScript MCP server at /srv/web-tool''\<rparr>"
    using handlers_convert_every_failure[of exampleRuntime "''/srv/web-tool''" _
        "exampleWorld []"] c
    by (cases "buildTypeScriptProject exampleRuntime [''srv'', ''web-tool''] (exampleWorld [])")
       (simp add: r p render_def)
  moreover have "fst (createServerTool exampleRuntime exampleTemplates ''web-tool''
        LangTypescript ''/srv'' (exampleWorld []))
     = Inr \<lparr>isError = True,
            content = ''Error: Directory /srv/web-tool already exists. ''
              @ ''Please choose a different name or directory.''\<rparr>"
    using handlers_convert_every_failure[of exampleRuntime "''/srv''" _ "exampleWorld []"
        exampleTemplates "''web-tool''" LangTypescript]
    by (simp add: r p render_def)
  moreover have "fst (createServerTool exampleRuntime exampleTemplates ''new-tool''
        LangTypescript ''/srv'' (exampleWorld []))
     = Inr \<lparr>isError = True,
            content = ''Failed to create server: Failed to create TypeScript project: ''
              @ ''ENOENT: no such file or directory, open ''
              @ [CHR 0x27] @ ''/srv/new-tool/package.json'' @ [CHR 0x27]\<rparr>"
    using handlers_convert_every_failure[of exampleRuntime "''/srv''" _ "exampleWorld []"
        exampleTemplates "''new-tool''" LangTypescript] d e
    by (cases "ensureDir exampleRuntime [''srv'', ''new-tool''] (exampleWorld [])";
        cases "createTypeScriptProject exampleRuntime exampleTemplates ''new-tool''
          [''srv'', ''new-tool'']
          (snd (ensureDir exampleRuntime [''srv'', ''new-tool''] (exampleWorld [])))")
       (simp add: r p)
  ultimately show ?thesis by simp
qed

text \<open>
  C5 as stated fails: a missing directory and a directory of no known kind are two kinds
  of failure, and the results of installing \<^verbatim>\<open>/srv/nowhere\<close> and \<^verbatim>\<open>/srv/empty\<close>
  are each the flag and a text, with nothing that names the kind.
\<close>

theorem failure_without_kind_counterexample:
  "fst (installServerTool exampleRuntime ''/srv/nowhere'' (Some ''/cfg/claude.json'')
      (exampleWorld []))
     = Inr \<lparr>isError = True, content = ''Error: Directory /srv/nowhere does not exist.''\<rparr>
   \<and> fst (installServerTool exampleRuntime ''/srv/empty'' (Some ''/cfg/claude.json'')
      (exampleWorld []))
     = Inr \<lparr>isError = True,
            content = ''Failed to install server: Failed to determine server type: ''
              @ ''Unable to determine server type in directory: /srv/empty''\<rparr>"
  by (simp add: run_defs example_defs)


end
